theory Spec2Isabelle
  imports Complex_Main "HOL-Library.Word" "HOL-Library.Sublist" "HOL-Library.Log_Nat"
begin

unbundle bit_operations_syntax

section \<open>Data model (src/types.ts and the state of the App component, src/App.tsx)\<close>

text \<open>
  \<^verbatim>\<open>ConnectionStatus\<close> and \<^verbatim>\<open>Emotion\<close> of src/types.ts. The string literal
  \<^verbatim>\<open>'default'\<close> is the neutral emotion; constructors are capitalised.
\<close>

datatype ConnectionStatus = IDLE | CONNECTING | CONNECTED | ERROR

datatype Emotion = Joy | Empathy | Calm | Curiosity | Frustration | Surprise | Boredom | Default

datatype Role = User | Model

text \<open>
  \<^verbatim>\<open>interface Message { role; text; timestamp }\<close>. The field \<^verbatim>\<open>text\<close> is named
  \<open>text_str\<close> here; \<open>timestamp\<close> is \<^verbatim>\<open>Date.now()\<close>, milliseconds.
\<close>

record Message =
  role :: Role
  text_str :: string
  timestamp :: nat

text \<open>
  The part of a \<^verbatim>\<open>LiveServerMessage\<close> that \<^verbatim>\<open>onmessage\<close> reads, all under
  \<^verbatim>\<open>message.serverContent\<close>; every property is optional, and an absent one is \<open>None\<close>
  or \<open>False\<close>.
  \<^item> A transcription object is \<open>Some t\<close>, where \<open>t\<close> is its optional \<^verbatim>\<open>text\<close>:
    \<open>Some None\<close> is an object without \<^verbatim>\<open>text\<close>.
  \<^item> \<^verbatim>\<open>modelTurn\<close> is a \<open>Content\<close> with its optional array \<^verbatim>\<open>parts\<close>; a \<open>Part\<close> has
    its optional \<^verbatim>\<open>inlineData\<close>, given by the optional \<^verbatim>\<open>data\<close> (a base64 string) of
    that object: \<open>Some None\<close> is an \<^verbatim>\<open>inlineData\<close> without \<^verbatim>\<open>data\<close>.
\<close>

record Part =
  inlineData :: "string option option"

record Content =
  parts :: "Part list option"

record LiveServerMessage =
  outputTranscription :: "string option option"
  inputTranscription :: "string option option"
  turnComplete :: bool
  modelTurn :: "Content option"
  interrupted :: bool

text \<open>The exception a handler can end with: reading a property of \<^verbatim>\<open>undefined\<close>.\<close>

datatype Error = TypeError

text \<open>
  Calls that the component makes on its collaborators, in the order they are made:
  \<^verbatim>\<open>source.start(t)\<close> on a buffer source of a given duration, \<^verbatim>\<open>source.stop()\<close>,
  \<^verbatim>\<open>session.sendClientContent\<close> and \<^verbatim>\<open>session.close()\<close>. A buffer source is
  identified by the number of sources created before it (\<^verbatim>\<open>createBufferSource\<close> returns
  a new object each time).
\<close>

datatype Effect =
    SourceStart nat real real
  | SourceStop nat
  | SendClientContent string
  | SessionClose nat

text \<open>
  What the \<^verbatim>\<open>onmessage\<close> callback closes over. The callback is created inside
  \<^verbatim>\<open>startSession\<close>, so the identifiers \<^verbatim>\<open>currentInput\<close> and \<^verbatim>\<open>currentOutput\<close>
  in its body are the constants of the render in which \<^verbatim>\<open>startSession\<close> was called.
\<close>

record Closure =
  closedInput :: string
  closedOutput :: string

text \<open>
  The component state: the \<^verbatim>\<open>useState\<close> cells, the \<^verbatim>\<open>useRef\<close> cells
  (\<open>sessionRef\<close>, \<open>nextStartTimeRef\<close>, \<open>sourcesRef\<close>; the \<^verbatim>\<open>Set\<close> of sources is a
  duplicate-free list in insertion order), the closure of the registered callbacks, the
  due times of the pending \<^verbatim>\<open>setTimeout\<close> callbacks, the number of buffer sources
  created, and the calls made so far. Times of the output clock are real numbers
  (seconds); \<^verbatim>\<open>Date.now()\<close> is a natural number (milliseconds).
\<close>

record AppState =
  status :: ConnectionStatus
  messages :: "Message list"
  currentInput :: string
  currentOutput :: string
  textValue :: string
  volume :: real
  isSpeaking :: bool
  emotion :: Emotion
  sessionRef :: "nat option"
  nextStartTimeRef :: real
  sourcesRef :: "nat list"
  callbacks :: Closure
  timers :: "nat list"
  created :: nat
  trace :: "Effect list"

text \<open>The readings a handler takes from its environment: \<^verbatim>\<open>Date.now()\<close> and
  \<^verbatim>\<open>output.currentTime\<close> (a double that starts at 0 and never decreases; the theorems
  that need it assume that it is not negative).\<close>

record Env =
  now :: nat
  currentTime :: real

text \<open>The state of a freshly mounted component (the \<^verbatim>\<open>useState\<close> and \<^verbatim>\<open>useRef\<close>
  initial values).\<close>

definition initialState :: AppState where
  "initialState =
     \<lparr>status = IDLE, messages = [], currentInput = [], currentOutput = [], textValue = [],
      volume = 0, isSpeaking = False, emotion = Default, sessionRef = None,
      nextStartTimeRef = 0, sourcesRef = [], callbacks = \<lparr>closedInput = [], closedOutput = []\<rparr>,
      timers = [], created = 0, trace = []\<rparr>"

section \<open>Strings: \<^verbatim>\<open>toLowerCase\<close>, \<^verbatim>\<open>trim\<close> and the regular expressions\<close>

text \<open>
  A JavaScript string is a sequence of UTF-16 code units; a \<open>string\<close> here is a sequence
  of code units below 256 (ASCII and Latin-1). On these, \<^verbatim>\<open>toLowerCase\<close> maps
  \<^verbatim>\<open>A-Z\<close> and the Latin-1 capitals (192 to 222 except 215) to the code unit 32 above.
\<close>

definition toLowerCase_char :: "char \<Rightarrow> char" where
  "toLowerCase_char c =
     (let n = (of_char c :: nat)
      in if (65 \<le> n \<and> n \<le> 90) \<or> (192 \<le> n \<and> n \<le> 222 \<and> n \<noteq> 215)
         then char_of (n + 32) else c)"

definition toLowerCase :: "string \<Rightarrow> string" where
  "toLowerCase s = map toLowerCase_char s"

text \<open>White space and line terminators that \<^verbatim>\<open>String.prototype.trim\<close> strips, among the
  code units below 256: TAB, LF, VT, FF, CR, SPACE and NBSP.\<close>

definition isWhiteSpace :: "char \<Rightarrow> bool" where
  "isWhiteSpace c = ((of_char c :: nat) \<in> {9, 10, 11, 12, 13, 32, 160})"

definition trim :: "string \<Rightarrow> string" where
  "trim s = rev (dropWhile isWhiteSpace (rev (dropWhile isWhiteSpace s)))"

text \<open>
  A word character of the regular expressions (\<^verbatim>\<open>\w\<close>): \<^verbatim>\<open>[A-Za-z0-9_]\<close>.
\<close>

definition isWordChar :: "char \<Rightarrow> bool" where
  "isWordChar c =
     (let n = (of_char c :: nat)
      in (48 \<le> n \<and> n \<le> 57) \<or> (65 \<le> n \<and> n \<le> 90) \<or> n = 95 \<or> (97 \<le> n \<and> n \<le> 122))"

definition wordAt :: "string \<Rightarrow> nat \<Rightarrow> bool" where
  "wordAt s i = (i < length s \<and> isWordChar (s ! i))"

text \<open>\<^verbatim>\<open>\b\<close> at position \<open>i\<close>: exactly one of the code units before and after the position
  is a word character (the ends of the string count as non-word).\<close>

definition wordBoundary :: "string \<Rightarrow> nat \<Rightarrow> bool" where
  "wordBoundary s i = ((0 < i \<and> wordAt s (i - 1)) \<noteq> wordAt s i)"

text \<open>
  \<^verbatim>\<open>/\b(k1|k2|...)\b/\<close> matches at position \<open>i\<close> when there is a boundary at \<open>i\<close>, some
  alternative \<open>k\<close> is read from \<open>i\<close> on, and there is a boundary after it (the matcher
  backtracks over all alternatives). \<^verbatim>\<open>RegExp.prototype.test\<close> tries every position.
\<close>

definition matchesAt :: "string list \<Rightarrow> string \<Rightarrow> nat \<Rightarrow> bool" where
  "matchesAt alts s i =
     (wordBoundary s i \<and>
      list_ex (\<lambda>k. take (length k) (drop i s) = k \<and> wordBoundary s (i + length k)) alts)"

definition regexTest :: "string list \<Rightarrow> string \<Rightarrow> bool" where
  "regexTest alts s = list_ex (matchesAt alts s) [0..<Suc (length s)]"

section \<open>The emotion classifier (src/App.tsx, lines 48-90)\<close>

text \<open>The alternatives of the seven regular expressions, in the order of the source.
  \<^verbatim>\<open>really\?\<close> reads the literal text \<^verbatim>\<open>really?\<close>.\<close>

definition surpriseWords :: "string list" where
  "surpriseWords = [''wow'', ''whoa'', ''surprise'', ''unbelievable'', ''sudden'', ''unexpected'',
                    ''really?'', ''no way'', ''incredible'']"

definition frustrationWords :: "string list" where
  "frustrationWords = [''frustrating'', ''annoying'', ''bother'', ''difficult'', ''hard'', ''tough'',
                        ''ugh'', ''sigh'', ''annoyed'']"

definition boredomWords :: "string list" where
  "boredomWords = [''bored'', ''repetitive'', ''same'', ''dull'', ''slow'', ''nothing'', ''empty'',
                    ''routine'', ''yawn'']"

definition joyWords :: "string list" where
  "joyWords = [''happy'', ''excited'', ''great'', ''amazing'', ''wonderful'', ''love'', ''yay'', ''joy'',
                ''fantastic'', ''brilliant'', ''glad'', ''delighted'']"

definition empathyWords :: "string list" where
  "empathyWords = [''sorry'', ''sad'', ''understand'', ''there'', ''care'', ''heart'', ''empathy'',
                    ''support'', ''feel'', ''lonely'', ''hurt'', ''pain'']"

definition calmWords :: "string list" where
  "calmWords = [''relax'', ''calm'', ''breathe'', ''peace'', ''quiet'', ''gentle'', ''soft'', ''rest'',
                 ''still'', ''okay'', ''fine'']"

definition curiosityWords :: "string list" where
  "curiosityWords = [''why'', ''how'', ''curious'', ''interesting'', ''wonder'', ''think'', ''thought'',
                      ''idea'', ''question'', ''analyze'', ''learn'']"

definition detectEmotion :: "string \<Rightarrow> Emotion" where
  "detectEmotion text =
     (let lower = toLowerCase text
      in if regexTest surpriseWords lower then Surprise
         else if regexTest frustrationWords lower then Frustration
         else if regexTest boredomWords lower then Boredom
         else if regexTest joyWords lower then Joy
         else if regexTest empathyWords lower then Empathy
         else if regexTest calmWords lower then Calm
         else if regexTest curiosityWords lower then Curiosity
         else Default)"

text \<open>
  The effect of lines 83-90, run after a render in which \<open>currentOutput\<close> differs from
  its value at the previous render: a classification other than \<open>Default\<close> is stored.
\<close>

definition emotionEffect :: "string \<Rightarrow> AppState \<Rightarrow> AppState" where
  "emotionEffect previousOutput s =
     (if currentOutput s \<noteq> previousOutput \<and> currentOutput s \<noteq> []
      then (let newEmotion = detectEmotion (currentOutput s)
            in if newEmotion \<noteq> Default then s\<lparr>emotion := newEmotion\<rparr> else s)
      else s)"

text \<open>
  The precedence table of the specification (section 4.5): the categories from highest to
  lowest precedence, each with its keyword set; the first category with a match wins.
\<close>

definition precedence :: "(Emotion \<times> string list) list" where
  "precedence =
     [(Surprise, surpriseWords), (Frustration, frustrationWords), (Boredom, boredomWords),
      (Joy, joyWords), (Empathy, empathyWords), (Calm, calmWords), (Curiosity, curiosityWords)]"

definition firstMatch :: "string \<Rightarrow> Emotion" where
  "firstMatch lower =
     (case find (\<lambda>(e, ws). regexTest ws lower) precedence of
        Some (e, ws) \<Rightarrow> e
      | None \<Rightarrow> Default)"

section \<open>Numbers: the addition of the language\<close>

text \<open>
  A number of the language is an IEEE 754 double. The times of the model are real
  numbers, and \<^verbatim>\<open>a + b\<close> is the exact sum rounded to the nearest double, ties to the even
  mantissa. \<open>exponent x\<close> is the \<open>e\<close> with \<open>2 ^ e \<le> x < 2 ^ (e + 1)\<close> for a positive \<open>x\<close>; the
  doubles around \<open>x\<close> are the multiples of \<open>2 ^ (e - 52)\<close>, and of \<open>2 ^ - 1074\<close> in the
  subnormal range. Sums beyond the largest finite double (where the language gives
  \<^verbatim>\<open>Infinity\<close>) are outside the model. \<^verbatim>\<open>Math.max\<close> and the comparisons are exact.
\<close>

definition exponent :: "real \<Rightarrow> int" where
  "exponent x = (if 1 \<le> x then bitlen \<lfloor>x\<rfloor> - 1 else - bitlen (\<lceil>1 / x\<rceil> - 1))"

definition ulpExponent :: "real \<Rightarrow> int" where
  "ulpExponent x = max (exponent x - 52) (- 1074)"

definition roundHalfEven :: "real \<Rightarrow> int" where
  "roundHalfEven y =
     (let f = \<lfloor>y\<rfloor>; r = y - of_int f
      in if r < 1 / 2 then f else if 1 / 2 < r then f + 1 else if even f then f else f + 1)"

definition roundToDouble :: "real \<Rightarrow> real" where
  "roundToDouble x =
     (if x = 0 then 0
      else (let a = \<bar>x\<bar>; u = 2 powi ulpExponent a
            in sgn x * (of_int (roundHalfEven (a / u)) * u)))"

text \<open>A real number that is a double: zero, or a whole multiple of the spacing of the
  doubles around it.\<close>

definition isDouble :: "real \<Rightarrow> bool" where
  "isDouble x = (x = 0 \<or> (let y = \<bar>x\<bar> / 2 powi ulpExponent \<bar>x\<bar> in of_int \<lfloor>y\<rfloor> = y))"

text \<open>The non-negative numbers with a mantissa of at most 53 bits and an exponent in the
  range of the doubles.\<close>

definition onGrid :: "real \<Rightarrow> bool" where
  "onGrid x = (\<exists>k j. 0 \<le> k \<and> k \<le> 2 ^ 53 \<and> - 1074 \<le> j \<and> x = of_int k * 2 powi j)"

section \<open>Playback scheduling and interruption (src/App.tsx, onmessage and handleSendText)\<close>

text \<open>\<^verbatim>\<open>Set.prototype.add\<close> and \<^verbatim>\<open>Set.prototype.delete\<close> on the insertion-ordered list.\<close>

definition set_add :: "nat \<Rightarrow> nat list \<Rightarrow> nat list" where
  "set_add x xs = (if x \<in> set xs then xs else xs @ [x])"

definition set_delete :: "nat \<Rightarrow> nat list \<Rightarrow> nat list" where
  "set_delete x xs = removeAll x xs"

text \<open>
  Lines 167-189, the body of \<^verbatim>\<open>if (base64Audio)\<close>, for a decoded buffer of the given
  duration; \<^verbatim>\<open>+=\<close> adds in double precision. Before the \<^verbatim>\<open>await\<close>:
  \<^verbatim>\<open>
  setIsSpeaking(true);
  nextStartTimeRef.current = Math.max(nextStartTimeRef.current, output.currentTime);
  \<close>
  and after it:
  \<^verbatim>\<open>
  const source = output.createBufferSource(); ...
  source.start(nextStartTimeRef.current);
  nextStartTimeRef.current += audioBuffer.duration;
  sourcesRef.current.add(source);
  \<close>
\<close>

definition beforeDecode :: "real \<Rightarrow> AppState \<Rightarrow> AppState" where
  "beforeDecode clock s =
     s\<lparr>isSpeaking := True, nextStartTimeRef := max (nextStartTimeRef s) clock\<rparr>"

definition afterDecode :: "real \<Rightarrow> AppState \<Rightarrow> AppState" where
  "afterDecode duration s =
     (let source = created s;
          s1 = s\<lparr>created := Suc (created s),
                 trace := trace s @ [SourceStart source (nextStartTimeRef s) duration]\<rparr>;
          s2 = s1\<lparr>nextStartTimeRef := roundToDouble (nextStartTimeRef s1 + duration)\<rparr>
      in s2\<lparr>sourcesRef := set_add source (sourcesRef s2)\<rparr>)"

definition scheduleBuffer :: "real \<Rightarrow> real \<Rightarrow> AppState \<Rightarrow> AppState" where
  "scheduleBuffer clock duration s = afterDecode duration (beforeDecode clock s)"

text \<open>
  Lines 192-197 (and again 230-235 in \<^verbatim>\<open>handleSendText\<close>):
  \<^verbatim>\<open>
  for (const s of sourcesRef.current) { try { s.stop(); } catch(e) {} }
  sourcesRef.current.clear();
  nextStartTimeRef.current = 0;
  setIsSpeaking(false);
  \<close>
\<close>

definition stopAllSources :: "AppState \<Rightarrow> AppState" where
  "stopAllSources s =
     s\<lparr>trace := trace s @ map SourceStop (sourcesRef s),
       sourcesRef := [],
       nextStartTimeRef := 0,
       isSpeaking := False\<rparr>"

text \<open>
  The \<^verbatim>\<open>'ended'\<close> listener of a source (lines 181-184):
  \<^verbatim>\<open>sourcesRef.current.delete(source); if (sourcesRef.current.size === 0) setIsSpeaking(false);\<close>
\<close>

definition onended :: "nat \<Rightarrow> AppState \<Rightarrow> AppState" where
  "onended source s =
     (let s1 = s\<lparr>sourcesRef := set_delete source (sourcesRef s)\<rparr>
      in if sourcesRef s1 = [] then s1\<lparr>isSpeaking := False\<rparr> else s1)"

section \<open>The message handler (src/App.tsx, lines 146-199)\<close>

text \<open>\<^verbatim>\<open>prev + transcription.text\<close>: string concatenation turns a missing \<^verbatim>\<open>text\<close> into
  the characters \<^verbatim>\<open>undefined\<close>.\<close>

definition appendText :: "string \<Rightarrow> string option \<Rightarrow> string" where
  "appendText prev t = prev @ (case t of Some fragment \<Rightarrow> fragment | None \<Rightarrow> ''undefined'')"

text \<open>Lines 147-151: an output fragment is appended to \<open>currentOutput\<close>; otherwise an input
  fragment is appended to \<open>currentInput\<close> (\<^verbatim>\<open>if ... else if\<close>).\<close>

definition accumulate :: "LiveServerMessage \<Rightarrow> AppState \<Rightarrow> AppState" where
  "accumulate m s =
     (case outputTranscription m of
        Some t \<Rightarrow> s\<lparr>currentOutput := appendText (currentOutput s) t\<rparr>
      | None \<Rightarrow>
          (case inputTranscription m of
             Some t \<Rightarrow> s\<lparr>currentInput := appendText (currentInput s) t\<rparr>
           | None \<Rightarrow> s))"

text \<open>
  Lines 153-164, the body of \<^verbatim>\<open>if (message.serverContent?.turnComplete)\<close>. The updater
  passed to \<^verbatim>\<open>setMessages\<close> tests and pushes the identifiers \<^verbatim>\<open>currentInput\<close> and
  \<^verbatim>\<open>currentOutput\<close> of the callback's closure; the two state cells are then set to the
  empty string and a timer is set for 2000 ms.
\<close>

definition flushTurn :: "Closure \<Rightarrow> nat \<Rightarrow> AppState \<Rightarrow> AppState" where
  "flushTurn cl t s =
     s\<lparr>messages := messages s
          @ (if closedInput cl \<noteq> [] then [\<lparr>role = User, text_str = closedInput cl, timestamp = t\<rparr>] else [])
          @ (if closedOutput cl \<noteq> [] then [\<lparr>role = Model, text_str = closedOutput cl, timestamp = t\<rparr>] else []),
       currentInput := [],
       currentOutput := [],
       timers := timers s @ [t + 2000]\<rparr>"

text \<open>
  Line 166, \<^verbatim>\<open>message.serverContent?.modelTurn?.parts[0]?.inlineData?.data\<close>. An absent
  \<^verbatim>\<open>modelTurn\<close> short-circuits the chain to \<^verbatim>\<open>undefined\<close>. A \<^verbatim>\<open>modelTurn\<close> without
  \<^verbatim>\<open>parts\<close> makes \<^verbatim>\<open>parts[0]\<close> throw a \<^verbatim>\<open>TypeError\<close> (there is no \<^verbatim>\<open>?.\<close> before the
  index). An empty array, a first part without \<^verbatim>\<open>inlineData\<close> and an \<^verbatim>\<open>inlineData\<close>
  without \<^verbatim>\<open>data\<close> give \<^verbatim>\<open>undefined\<close>.
\<close>

definition base64AudioOf :: "LiveServerMessage \<Rightarrow> Error + string option" where
  "base64AudioOf m =
     (case modelTurn m of
        None \<Rightarrow> Inr None
      | Some content \<Rightarrow>
          (case parts content of
             None \<Rightarrow> Inl TypeError
           | Some ps \<Rightarrow>
               Inr (case ps of
                      [] \<Rightarrow> None
                    | p # rest \<Rightarrow> (case inlineData p of None \<Rightarrow> None | Some blob \<Rightarrow> blob))))"

text \<open>
  The handler. It returns the exception it ended with, if any, and the state it left:
  an exception thrown on line 166 ends the handler after the transcription and
  turn-complete blocks and before the audio and interrupt blocks. \<open>dur\<close> gives the
  duration of the buffer that \<^verbatim>\<open>decodeAudioData(decode(base64Audio), output, 24000, 1)\<close>
  returns (src/utils/audio-utils is not among the sources). An empty base64 string is
  falsy and schedules nothing. The handler is taken to run to completion: what follows
  \<^verbatim>\<open>await decodeAudioData(...)\<close> runs before the next event is handled.
\<close>

definition onmessage :: "(string \<Rightarrow> real) \<Rightarrow> Closure \<Rightarrow> Env \<Rightarrow> LiveServerMessage \<Rightarrow> AppState \<Rightarrow> Error option \<times> AppState" where
  "onmessage dur cl env m s =
     (let s1 = accumulate m s;
          s2 = (if turnComplete m then flushTurn cl (now env) s1 else s1)
      in case base64AudioOf m of
           Inl exception \<Rightarrow> (Some exception, s2)
         | Inr audio \<Rightarrow>
             (let s3 = (case audio of
                          Some base64Audio \<Rightarrow>
                            if base64Audio \<noteq> []
                            then scheduleBuffer (currentTime env) (dur base64Audio) s2 else s2
                        | None \<Rightarrow> s2);
                  s4 = (if interrupted m then stopAllSources s3 else s3)
              in (None, s4)))"

section \<open>Text send and stop (src/App.tsx, lines 227-254)\<close>

text \<open>
  \<^verbatim>\<open>handleSendText\<close> (lines 227-243), called at time \<open>t\<close>: after the guard
  \<^verbatim>\<open>if (!textValue.trim() || !sessionRef.current) return;\<close> the playing sources are
  stopped, the text is sent, the user message is appended and the input is cleared.
\<close>

definition handleSendText :: "nat \<Rightarrow> AppState \<Rightarrow> AppState" where
  "handleSendText t s =
     (if trim (textValue s) = [] \<or> sessionRef s = None then s
      else
        (let s1 = stopAllSources s;
             s2 = s1\<lparr>trace := trace s1 @ [SendClientContent (textValue s)]\<rparr>;
             s3 = s2\<lparr>messages := messages s2 @ [\<lparr>role = User, text_str = textValue s, timestamp = t\<rparr>]\<rparr>
         in s3\<lparr>textValue := []\<rparr>))"

text \<open>
  \<^verbatim>\<open>startSession\<close> up to its first \<^verbatim>\<open>await\<close> (lines 108-114): the status becomes
  \<open>CONNECTING\<close>, and the callbacks that the call goes on to register close over the
  \<^verbatim>\<open>currentInput\<close> and \<^verbatim>\<open>currentOutput\<close> of the render the call belongs to. Its
  \<^verbatim>\<open>catch\<close> branch (lines 221-224) and the callbacks \<^verbatim>\<open>onopen\<close>, \<^verbatim>\<open>onerror\<close> and
  \<^verbatim>\<open>onclose\<close> (lines 119-122 and 200-207) set the status.
\<close>

definition startSession :: "AppState \<Rightarrow> AppState" where
  "startSession s =
     s\<lparr>status := CONNECTING,
       callbacks := \<lparr>closedInput = currentInput s, closedOutput = currentOutput s\<rparr>\<rparr>"

definition startSession_catch :: "AppState \<Rightarrow> AppState" where
  "startSession_catch s = s\<lparr>status := ERROR\<rparr>"

definition onopen :: "AppState \<Rightarrow> AppState" where
  "onopen s = s\<lparr>status := CONNECTED\<rparr>"

definition onerror :: "AppState \<Rightarrow> AppState" where
  "onerror s = s\<lparr>status := ERROR\<rparr>"

definition onclose :: "AppState \<Rightarrow> AppState" where
  "onclose s = s\<lparr>status := IDLE\<rparr>"

text \<open>
  \<^verbatim>\<open>stopSession\<close> (lines 245-254): a held session is closed and dropped; status,
  \<open>isSpeaking\<close>, volume and emotion are set whether or not a session was held. The
  function touches neither \<open>sourcesRef\<close> nor \<open>nextStartTimeRef\<close>.
\<close>

definition stopSession :: "AppState \<Rightarrow> AppState" where
  "stopSession s =
     (let s1 = (case sessionRef s of
                  Some session \<Rightarrow> s\<lparr>trace := trace s @ [SessionClose session], sessionRef := None\<rparr>
                | None \<Rightarrow> s)
      in s1\<lparr>status := IDLE, isSpeaking := False, volume := 0, emotion := Default\<rparr>)"

section \<open>The capture conversion (src/App.tsx, lines 126-132)\<close>

text \<open>
  Storing a number into an \<^verbatim>\<open>Int16Array\<close> element applies the conversion ToInt16 of
  the language: the number is truncated towards zero and reduced modulo \<open>2 ^ 16\<close> into
  the signed range. A sample is a single-precision value, so its product with 32768 is
  computed exactly in double precision; samples are real numbers here.
\<close>

definition truncate_real :: "real \<Rightarrow> int" where
  "truncate_real x = (if 0 \<le> x then \<lfloor>x\<rfloor> else \<lceil>x\<rceil>)"

definition toInt16 :: "real \<Rightarrow> 16 word" where
  "toInt16 x = word_of_int (truncate_real x)"

text \<open>The loop body \<^verbatim>\<open>int16[i] = inputData[i] * 32768\<close> and the loop over the frame.\<close>

definition floatToInt16 :: "real \<Rightarrow> 16 word" where
  "floatToInt16 f = toInt16 (f * 32768)"

definition convertFrame :: "real list \<Rightarrow> 16 word list" where
  "convertFrame inputData = map floatToInt16 inputData"

text \<open>The conversion in the words of the specification (section 4.1):
  \<^verbatim>\<open>round(f * 32768)\<close>, clamped to the int16 range.\<close>

definition specSample :: "real \<Rightarrow> int" where
  "specSample f = max (- 32768) (min 32767 (round (f * 32768)))"

section \<open>The PCM codec (specification, section 4.1)\<close>

text \<open>
  The bytes of the \<^verbatim>\<open>Int16Array\<close>'s buffer, as \<^verbatim>\<open>new Uint8Array(int16.buffer)\<close> of
  src/App.tsx, line 134, views them: two bytes per sample, the low byte first
  (little-endian, as section 6 of the specification has it).
\<close>

definition sampleBytes :: "16 word \<Rightarrow> 8 word list" where
  "sampleBytes w = [ucast w, ucast (drop_bit 8 w)]"

definition packSamples :: "16 word list \<Rightarrow> 8 word list" where
  "packSamples frame = concat (map sampleBytes frame)"

text \<open>
  Modelled from the spec: src/utils/audio-utils, which defines \<^verbatim>\<open>encode\<close>, \<^verbatim>\<open>decode\<close> and
  \<^verbatim>\<open>decodeAudioData\<close>, is not among the sources. Reading 16-bit little-endian samples back
  from a byte sequence (a trailing odd byte is not a sample).
\<close>

fun unpackSamples :: "8 word list \<Rightarrow> 16 word list" where
  "unpackSamples (lo # hi # rest) = (ucast lo OR push_bit 8 (ucast hi)) # unpackSamples rest"
| "unpackSamples rest = []"

text \<open>
  Modelled from the spec: src/utils/audio-utils is not among the sources. The
  "base64-style text framing" of section 2, taken as standard base64: the character of
  a 6-bit value in the alphabet \<^verbatim>\<open>A-Z a-z 0-9 + /\<close>.
\<close>

definition sextetChar :: "nat \<Rightarrow> char" where
  "sextetChar n =
     (if n < 26 then char_of (n + 65)
      else if n < 52 then char_of (n + 71)
      else if n < 62 then char_of (n - 4)
      else if n = 62 then CHR ''+'' else CHR ''/'')"

text \<open>
  Modelled from the spec: src/utils/audio-utils is not among the sources. The 6-bit
  value of a base64 character; \<open>None\<close> for a character outside the alphabet.
\<close>

definition charSextet :: "char \<Rightarrow> nat option" where
  "charSextet c =
     (let n = (of_char c :: nat)
      in if 65 \<le> n \<and> n \<le> 90 then Some (n - 65)
         else if 97 \<le> n \<and> n \<le> 122 then Some (n - 71)
         else if 48 \<le> n \<and> n \<le> 57 then Some (n + 4)
         else if n = 43 then Some 62
         else if n = 47 then Some 63
         else None)"

text \<open>
  Modelled from the spec: src/utils/audio-utils is not among the sources. Base64 text of
  a byte sequence (bytes as numbers below 256): three bytes give four characters, a last
  group of one or two bytes is padded with \<^verbatim>\<open>=\<close>.
\<close>

fun base64Encode :: "nat list \<Rightarrow> string" where
  "base64Encode (a # b # c # rest) =
     [sextetChar (a div 4), sextetChar ((a mod 4) * 16 + b div 16),
      sextetChar ((b mod 16) * 4 + c div 64), sextetChar (c mod 64)] @ base64Encode rest"
| "base64Encode [a, b] =
     [sextetChar (a div 4), sextetChar ((a mod 4) * 16 + b div 16), sextetChar ((b mod 16) * 4), CHR ''='']"
| "base64Encode [a] = [sextetChar (a div 4), sextetChar ((a mod 4) * 16), CHR ''='', CHR ''='']"
| "base64Encode [] = []"

text \<open>
  Modelled from the spec: src/utils/audio-utils is not among the sources. The bytes of a
  base64 text; \<open>None\<close> for a text that is not base64 (a character outside the alphabet,
  a length that is not a multiple of four, padding before the last group).
\<close>

fun base64Decode :: "string \<Rightarrow> nat list option" where
  "base64Decode [] = Some []"
| "base64Decode (c1 # c2 # c3 # c4 # rest) =
     (case (charSextet c1, charSextet c2) of
        (Some s1, Some s2) \<Rightarrow>
          if c3 = CHR ''='' \<and> c4 = CHR ''='' \<and> rest = [] then Some [s1 * 4 + s2 div 16]
          else
            (case charSextet c3 of
               Some s3 \<Rightarrow>
                 if c4 = CHR ''='' \<and> rest = [] then Some [s1 * 4 + s2 div 16, (s2 mod 16) * 16 + s3 div 4]
                 else
                   (case (charSextet c4, base64Decode rest) of
                      (Some s4, Some bytes) \<Rightarrow>
                        Some ([s1 * 4 + s2 div 16, (s2 mod 16) * 16 + s3 div 4, (s3 mod 4) * 64 + s4] @ bytes)
                    | _ \<Rightarrow> None)
             | None \<Rightarrow> None)
      | _ \<Rightarrow> None)"
| "base64Decode cs = None"

text \<open>
  Modelled from the spec: src/utils/audio-utils is not among the sources. The
  \<^verbatim>\<open>TransportChunk\<close> of section 3 (the encoded data and a MIME-like type tag) and the
  contract of section 4.1: \<^verbatim>\<open>encode(frame: sequence of int16) -> TransportChunk\<close> packs
  the samples byte for byte, without compression, and frames them as text.
\<close>

record TransportChunk =
  data :: string
  mimeType :: string

definition encode :: "16 word list \<Rightarrow> TransportChunk" where
  "encode frame =
     \<lparr>data = base64Encode (map unat (packSamples frame)), mimeType = ''audio/pcm;rate=16000''\<rparr>"

text \<open>
  Modelled from the spec: src/utils/audio-utils is not among the sources. The contract
  of section 4.1, \<^verbatim>\<open>decode(chunk: bytes) -> sequence of int16\<close>, the inverse of
  \<^verbatim>\<open>encode\<close>; \<open>None\<close> for data that is not base64 text.
\<close>

definition decode :: "string \<Rightarrow> 16 word list option" where
  "decode chunk = map_option (\<lambda>bytes. unpackSamples (map of_nat bytes)) (base64Decode chunk)"

section \<open>Timers, events and runs of the component\<close>

text \<open>
  The callback of line 163, \<^verbatim>\<open>setTimeout(() => setEmotion('default'), 2000)\<close>: every
  pending timer whose due time has been reached fires and is removed. No handler of the
  source calls \<^verbatim>\<open>clearTimeout\<close>.
\<close>

definition fireTimers :: "nat \<Rightarrow> AppState \<Rightarrow> AppState" where
  "fireTimers t s =
     (if list_ex (\<lambda>due. due \<le> t) (timers s)
      then s\<lparr>emotion := Default, timers := filter (\<lambda>due. t < due) (timers s)\<rparr>
      else s)"

text \<open>
  The events the component reacts to. \<open>StartSession\<close> is the call of
  \<^verbatim>\<open>startSession\<close> up to its first \<^verbatim>\<open>await\<close>; \<open>StartFailed\<close> its \<^verbatim>\<open>catch\<close> branch;
  \<open>OnOpen\<close>, \<open>OnMessage\<close>, \<open>OnError\<close> and \<open>OnClose\<close> the four callbacks;
  \<open>Connected h\<close> the assignment \<^verbatim>\<open>sessionRef.current = session\<close> after
  \<^verbatim>\<open>ai.live.connect\<close> resolves with the session \<open>h\<close>; \<open>SourceEnded\<close> the \<^verbatim>\<open>'ended'\<close>
  event of a source; \<open>SetTextValue\<close> the \<^verbatim>\<open>onChange\<close> of the input; \<open>SendText\<close> and
  \<open>StopSession\<close> the calls of \<^verbatim>\<open>handleSendText\<close> and \<^verbatim>\<open>stopSession\<close>; \<open>Idle\<close> is time
  passing.
\<close>

datatype Event =
    StartSession
  | StartFailed
  | OnOpen
  | Connected nat
  | OnMessage LiveServerMessage
  | OnError
  | OnClose
  | SourceEnded nat
  | SetTextValue string
  | SendText
  | StopSession
  | Idle

fun handle :: "(string \<Rightarrow> real) \<Rightarrow> Env \<Rightarrow> Event \<Rightarrow> AppState \<Rightarrow> AppState" where
  "handle dur env StartSession s = startSession s"
| "handle dur env StartFailed s = startSession_catch s"
| "handle dur env OnOpen s = onopen s"
| "handle dur env (Connected h) s = s\<lparr>sessionRef := Some h\<rparr>"
| "handle dur env (OnMessage m) s = snd (onmessage dur (callbacks s) env m s)"
| "handle dur env OnError s = onerror s"
| "handle dur env OnClose s = onclose s"
| "handle dur env (SourceEnded source) s = onended source s"
| "handle dur env (SetTextValue v) s = s\<lparr>textValue := v\<rparr>"
| "handle dur env SendText s = handleSendText (now env) s"
| "handle dur env StopSession s = stopSession s"
| "handle dur env Idle s = s"

text \<open>
  One turn of the event loop at the time given by \<open>env\<close>: the timers that are due fire, the
  handler runs to completion, and the effect on \<open>currentOutput\<close> runs after the render
  (the state updates of one handler are rendered together). An exception that ends
  \<^verbatim>\<open>onmessage\<close> rejects the promise of that call, which nothing awaits: the state the
  handler left stays.
\<close>

definition step :: "(string \<Rightarrow> real) \<Rightarrow> Env \<Rightarrow> Event \<Rightarrow> AppState \<Rightarrow> AppState" where
  "step dur env ev s = emotionEffect (currentOutput s) (handle dur env ev (fireTimers (now env) s))"

fun run :: "(string \<Rightarrow> real) \<Rightarrow> (Env \<times> Event) list \<Rightarrow> AppState \<Rightarrow> AppState" where
  "run dur [] s = s"
| "run dur ((env, ev) # rest) s = run dur rest (step dur env ev s)"

text \<open>The events that reset the playback cursor: a message carrying \<^verbatim>\<open>interrupted\<close> and a
  text send.\<close>

fun resetsCursor :: "Event \<Rightarrow> bool" where
  "resetsCursor (OnMessage m) = interrupted m"
| "resetsCursor SendText = True"
| "resetsCursor ev = False"

text \<open>The \<open>(start time, duration)\<close> pairs of the \<^verbatim>\<open>source.start\<close> calls of a trace, in
  order.\<close>

fun scheduled :: "Effect list \<Rightarrow> (real \<times> real) list" where
  "scheduled [] = []"
| "scheduled (SourceStart source startAt duration # es) = (startAt, duration) # scheduled es"
| "scheduled (e # es) = scheduled es"

text \<open>Each buffer starts no earlier than the start of the one before it plus that one's
  duration, the sum being exact.\<close>

fun nonOverlapping :: "(real \<times> real) list \<Rightarrow> bool" where
  "nonOverlapping [] = True"
| "nonOverlapping [x] = True"
| "nonOverlapping ((t1, d1) # (t2, d2) # rest) = (t1 + d1 \<le> t2 \<and> nonOverlapping ((t2, d2) # rest))"

text \<open>The same with the sum as the language computes it.\<close>

fun nonOverlappingRounded :: "(real \<times> real) list \<Rightarrow> bool" where
  "nonOverlappingRounded [] = True"
| "nonOverlappingRounded [x] = True"
| "nonOverlappingRounded ((t1, d1) # (t2, d2) # rest) =
     (roundToDouble (t1 + d1) \<le> t2 \<and> nonOverlappingRounded ((t2, d2) # rest))"

text \<open>The calls a run adds to the trace of the state it starts from.\<close>

definition newCalls :: "AppState \<Rightarrow> AppState \<Rightarrow> Effect list" where
  "newCalls s s' = drop (length (trace s)) (trace s')"

text \<open>
  The invariant of the playback cursor over the pairs scheduled so far: they do not
  overlap, the computed end of the last one is no later than the cursor and, when clock
  readings and durations are known to be non-negative doubles, the cursor is one too,
  the start times ascend and lie at or below the cursor.
\<close>

definition cursorInv :: "bool \<Rightarrow> real \<Rightarrow> (real \<times> real) list \<Rightarrow> bool" where
  "cursorInv nonneg n T =
     (nonOverlappingRounded T \<and> (T \<noteq> [] \<longrightarrow> roundToDouble (fst (last T) + snd (last T)) \<le> n)
      \<and> (nonneg \<longrightarrow> onGrid n \<and> sorted (map fst T) \<and> (\<forall>t \<in> set (map fst T). t \<le> n)))"

text \<open>Inputs for the examples: a message with no field set, the \<^verbatim>\<open>modelTurn\<close> that
  carries one audio fragment, one environment per millisecond and clock reading, and a
  decoder under which every four base64 characters play for half a second.\<close>

definition noContent :: LiveServerMessage where
  "noContent = \<lparr>outputTranscription = None, inputTranscription = None, turnComplete = False,
                modelTurn = None, interrupted = False\<rparr>"

definition audio :: "string \<Rightarrow> Content option" where
  "audio base64 = Some \<lparr>parts = Some [\<lparr>inlineData = Some (Some base64)\<rparr>]\<rparr>"

definition envAt :: "nat \<Rightarrow> real \<Rightarrow> Env" where
  "envAt ms clock = \<lparr>now = ms, currentTime = clock\<rparr>"

definition eighth :: "string \<Rightarrow> real" where
  "eighth b = real (length b) / 8"

definition threeBuffers :: "(Env \<times> Event) list" where
  "threeBuffers =
     [(envAt 10 1, OnMessage (noContent\<lparr>modelTurn := audio ''AAAA''\<rparr>)),
      (envAt 20 (9/8), OnMessage (noContent\<lparr>modelTurn := audio ''BBBB''\<rparr>)),
      (envAt 30 5, OnMessage (noContent\<lparr>modelTurn := audio ''CCCC''\<rparr>))]"

text \<open>The active set is empty exactly when \<open>isSpeaking\<close> is false.\<close>

definition speakingInv :: "AppState \<Rightarrow> bool" where
  "speakingInv s = ((sourcesRef s = []) = (\<not> isSpeaking s))"

text \<open>Runs used in the examples: opening a session; two buffers playing; a turn with
  interleaved fragments; a stop and a restart while a buffer is scheduled; a new turn
  classified before the decay of the previous one is due; a session opened and stopped;
  two buffers of seven tenths of a second, the first started at a tenth of a second
  (the doubles nearest to these values).\<close>

definition connect :: "(Env \<times> Event) list" where
  "connect = [(envAt 0 0, StartSession), (envAt 1 0, OnOpen), (envAt 2 0, Connected 0)]"

definition playing :: AppState where
  "playing =
     run eighth
       (connect @
        [(envAt 10 1, OnMessage (noContent\<lparr>modelTurn := audio ''AAAA''\<rparr>)),
         (envAt 20 1, OnMessage (noContent\<lparr>modelTurn := audio ''BBBB''\<rparr>))])
       initialState"

definition interleavedTurn :: "(Env \<times> Event) list" where
  "interleavedTurn =
     [(envAt 10 0, OnMessage (noContent\<lparr>inputTranscription := Some (Some ''in1 '')\<rparr>)),
      (envAt 20 0, OnMessage (noContent\<lparr>outputTranscription := Some (Some ''out1 '')\<rparr>)),
      (envAt 30 0, OnMessage (noContent\<lparr>inputTranscription := Some (Some ''in2'')\<rparr>)),
      (envAt 40 0, OnMessage (noContent\<lparr>outputTranscription := Some (Some ''out2'')\<rparr>)),
      (envAt 50 0, OnMessage (noContent\<lparr>turnComplete := True\<rparr>))]"

definition restartWhilePlaying :: "(Env \<times> Event) list" where
  "restartWhilePlaying =
     connect @
     [(envAt 10 1, OnMessage (noContent\<lparr>modelTurn := audio ''AAAA''\<rparr>)),
      (envAt 20 1, StopSession),
      (envAt 30 1, StartSession),
      (envAt 40 1, OnOpen),
      (envAt 50 1, Connected 1)]"

definition staleDecay :: "(Env \<times> Event) list" where
  "staleDecay =
     connect @
     [(envAt 1000 0, OnMessage (noContent\<lparr>outputTranscription := Some (Some ''that is great'')\<rparr>)),
      (envAt 2000 0, OnMessage (noContent\<lparr>turnComplete := True\<rparr>)),
      (envAt 3000 0, OnMessage (noContent\<lparr>outputTranscription := Some (Some ''i am sorry'')\<rparr>))]"

definition stopped :: AppState where
  "stopped = run eighth (connect @ [(envAt 20 1, StopSession)]) initialState"

definition tenth :: real where
  "tenth = 3602879701896397 / 36028797018963968"

definition sevenTenths :: "string \<Rightarrow> real" where
  "sevenTenths b = 3152519739159347 / 4503599627370496"

definition roundedDown :: "(Env \<times> Event) list" where
  "roundedDown =
     [(envAt 10 tenth, OnMessage (noContent\<lparr>modelTurn := audio ''AAAA''\<rparr>)),
      (envAt 20 (1/4), OnMessage (noContent\<lparr>modelTurn := audio ''BBBB''\<rparr>))]"

section \<open>Frame of the text send\<close>

lemma trim_all_whitespace: "\<forall>c \<in> set s. isWhiteSpace c \<Longrightarrow> trim s = []"
proof -
  assume a: "\<forall>c \<in> set s. isWhiteSpace c"
  have d: "dropWhile isWhiteSpace s = []"
    using a by (induction s) auto
  show ?thesis
    by (simp only: trim_def d rev.simps dropWhile.simps)
qed

text \<open>
  C10. If the pending text value is empty or consists only of white space, or no session
  is open, \<open>handleSendText\<close> returns the state it was given: no source is stopped and
  nothing is transmitted (the trace of calls is the same), \<open>nextStartTimeRef\<close>,
  \<open>isSpeaking\<close>, the message log and the pending text value are unchanged.
\<close>

theorem handleSendText_guard_frame:
  assumes "(\<forall>c \<in> set (textValue s). isWhiteSpace c) \<or> sessionRef s = None"
  shows "handleSendText t s = s"
  using assms by (auto simp: handleSendText_def trim_all_whitespace)

theorem handleSendText_guard_frame_witness:
  "((\<forall>c \<in> set (textValue (initialState\<lparr>textValue := '' '', sessionRef := Some 0, sourcesRef := [0], isSpeaking := True\<rparr>)). isWhiteSpace c)
     \<or> sessionRef (initialState\<lparr>textValue := '' '', sessionRef := Some 0, sourcesRef := [0], isSpeaking := True\<rparr>) = None)
   \<and> handleSendText 5 (initialState\<lparr>textValue := '' '', sessionRef := Some 0, sourcesRef := [0], isSpeaking := True\<rparr>)
       = initialState\<lparr>textValue := '' '', sessionRef := Some 0, sourcesRef := [0], isSpeaking := True\<rparr>"
proof -
  have h: "(\<forall>c \<in> set (textValue (initialState\<lparr>textValue := '' '', sessionRef := Some 0, sourcesRef := [0], isSpeaking := True\<rparr>)). isWhiteSpace c)
     \<or> sessionRef (initialState\<lparr>textValue := '' '', sessionRef := Some 0, sourcesRef := [0], isSpeaking := True\<rparr>) = None"
    by (simp add: isWhiteSpace_def)
  from h handleSendText_guard_frame [OF h, of 5] show ?thesis by simp
qed

section \<open>Frame lemmas of the handlers\<close>

lemma scheduled_append: "scheduled (xs @ ys) = scheduled xs @ scheduled ys"
  by (induction xs rule: scheduled.induct) auto

lemma scheduled_map_SourceStop: "scheduled (map SourceStop xs) = []"
  by (induction xs) auto

lemma nonOverlappingRounded_snoc:
  "nonOverlappingRounded (xs @ [(t, d)]) =
     (nonOverlappingRounded xs \<and> (xs \<noteq> [] \<longrightarrow> roundToDouble (fst (last xs) + snd (last xs)) \<le> t))"
  by (induction xs rule: nonOverlappingRounded.induct) auto

lemma fireTimers_frame [simp]:
  "trace (fireTimers t s) = trace s"
  "nextStartTimeRef (fireTimers t s) = nextStartTimeRef s"
  "created (fireTimers t s) = created s"
  "sourcesRef (fireTimers t s) = sourcesRef s"
  "isSpeaking (fireTimers t s) = isSpeaking s"
  "currentOutput (fireTimers t s) = currentOutput s"
  "currentInput (fireTimers t s) = currentInput s"
  "messages (fireTimers t s) = messages s"
  "callbacks (fireTimers t s) = callbacks s"
  "status (fireTimers t s) = status s"
  "sessionRef (fireTimers t s) = sessionRef s"
  by (simp_all add: fireTimers_def)

lemma emotionEffect_frame [simp]:
  "trace (emotionEffect p s) = trace s"
  "nextStartTimeRef (emotionEffect p s) = nextStartTimeRef s"
  "created (emotionEffect p s) = created s"
  "sourcesRef (emotionEffect p s) = sourcesRef s"
  "isSpeaking (emotionEffect p s) = isSpeaking s"
  "currentOutput (emotionEffect p s) = currentOutput s"
  "currentInput (emotionEffect p s) = currentInput s"
  "messages (emotionEffect p s) = messages s"
  "callbacks (emotionEffect p s) = callbacks s"
  "status (emotionEffect p s) = status s"
  "sessionRef (emotionEffect p s) = sessionRef s"
  "timers (emotionEffect p s) = timers s"
  by (simp_all add: emotionEffect_def Let_def)

lemma accumulate_frame [simp]:
  "trace (accumulate m s) = trace s"
  "nextStartTimeRef (accumulate m s) = nextStartTimeRef s"
  "created (accumulate m s) = created s"
  "sourcesRef (accumulate m s) = sourcesRef s"
  "isSpeaking (accumulate m s) = isSpeaking s"
  "messages (accumulate m s) = messages s"
  "callbacks (accumulate m s) = callbacks s"
  "status (accumulate m s) = status s"
  "sessionRef (accumulate m s) = sessionRef s"
  "timers (accumulate m s) = timers s"
  "emotion (accumulate m s) = emotion s"
  by (simp_all add: accumulate_def split: option.splits)

lemma flushTurn_frame [simp]:
  "trace (flushTurn cl t s) = trace s"
  "nextStartTimeRef (flushTurn cl t s) = nextStartTimeRef s"
  "created (flushTurn cl t s) = created s"
  "sourcesRef (flushTurn cl t s) = sourcesRef s"
  "isSpeaking (flushTurn cl t s) = isSpeaking s"
  "callbacks (flushTurn cl t s) = callbacks s"
  "status (flushTurn cl t s) = status s"
  "sessionRef (flushTurn cl t s) = sessionRef s"
  "emotion (flushTurn cl t s) = emotion s"
  by (simp_all add: flushTurn_def)

section \<open>The addition of the language\<close>

lemma powi_nat: "0 \<le> n \<Longrightarrow> (2::real) powi n = 2 ^ nat n"
  by (simp add: power_int_def)

lemma powi_neg_nat: "0 \<le> n \<Longrightarrow> (2::real) powi (- n) = 1 / 2 ^ nat n"
  by (simp add: power_int_minus_divide power_int_def power_one_over)

lemma exponent_bounds:
  assumes "0 < x"
  shows "2 powi exponent x \<le> x" and "x < 2 powi (exponent x + 1)"
proof -
  show "2 powi exponent x \<le> x"
  proof (cases "1 \<le> x")
    case True
    then have n: "0 < \<lfloor>x\<rfloor>" by linarith
    from bitlen_bounds [OF n] have "2 ^ nat (bitlen \<lfloor>x\<rfloor> - 1) \<le> \<lfloor>x\<rfloor>" by simp
    then have "(2::real) ^ nat (bitlen \<lfloor>x\<rfloor> - 1) \<le> of_int \<lfloor>x\<rfloor>"
      by (metis of_int_le_iff of_int_numeral of_int_power)
    also have "\<dots> \<le> x" by simp
    finally have "(2::real) ^ nat (bitlen \<lfloor>x\<rfloor> - 1) \<le> x" .
    moreover have "1 \<le> bitlen \<lfloor>x\<rfloor>" using n by (simp add: bitlen_alt_def)
    ultimately show ?thesis using True by (simp add: exponent_def powi_nat)
  next
    case False
    with assms have x1: "1 < 1 / x" by simp
    then have m: "0 < \<lceil>1 / x\<rceil> - 1" by linarith
    let ?m = "\<lceil>1 / x\<rceil> - 1"
    from bitlen_bounds [OF m] have "?m < 2 ^ nat (bitlen ?m)" by simp
    then have "?m + 1 \<le> 2 ^ nat (bitlen ?m)" by simp
    then have "real_of_int (?m + 1) \<le> 2 ^ nat (bitlen ?m)"
      by (metis of_int_le_iff of_int_numeral of_int_power)
    moreover have "1 / x \<le> real_of_int (?m + 1)" by simp
    ultimately have "1 / x \<le> 2 ^ nat (bitlen ?m)" by linarith
    then have "1 / 2 ^ nat (bitlen ?m) \<le> x"
      using assms by (simp add: field_simps)
    then show ?thesis using False by (simp add: exponent_def powi_neg_nat bitlen_nonneg)
  qed
  show "x < 2 powi (exponent x + 1)"
  proof (cases "1 \<le> x")
    case True
    then have n: "0 < \<lfloor>x\<rfloor>" by linarith
    from bitlen_bounds [OF n] have "\<lfloor>x\<rfloor> < 2 ^ nat (bitlen \<lfloor>x\<rfloor>)" by simp
    then have "\<lfloor>x\<rfloor> + 1 \<le> 2 ^ nat (bitlen \<lfloor>x\<rfloor>)" by simp
    then have "real_of_int (\<lfloor>x\<rfloor> + 1) \<le> 2 ^ nat (bitlen \<lfloor>x\<rfloor>)"
      by (metis of_int_le_iff of_int_numeral of_int_power)
    moreover have "x < real_of_int (\<lfloor>x\<rfloor> + 1)" by linarith
    ultimately have "x < 2 ^ nat (bitlen \<lfloor>x\<rfloor>)" by linarith
    then show ?thesis using True by (simp add: exponent_def powi_nat bitlen_nonneg)
  next
    case False
    with assms have x1: "1 < 1 / x" by simp
    then have m: "0 < \<lceil>1 / x\<rceil> - 1" by linarith
    let ?m = "\<lceil>1 / x\<rceil> - 1"
    have b1: "1 \<le> bitlen ?m" using m by (simp add: bitlen_alt_def)
    from bitlen_bounds [OF m] have "2 ^ nat (bitlen ?m - 1) \<le> ?m" by simp
    then have "(2::real) ^ nat (bitlen ?m - 1) \<le> real_of_int ?m"
      by (metis of_int_le_iff of_int_numeral of_int_power)
    moreover have "real_of_int ?m < 1 / x" by linarith
    ultimately have "(2::real) ^ nat (bitlen ?m - 1) < 1 / x" by linarith
    then have "x < 1 / 2 ^ nat (bitlen ?m - 1)"
      using assms by (simp add: field_simps)
    moreover have "(2::real) powi (1 - bitlen ?m) = 1 / 2 ^ nat (bitlen ?m - 1)"
      using powi_neg_nat [of "bitlen ?m - 1"] b1 by simp
    ultimately show ?thesis using False
      by (simp add: exponent_def)
  qed
qed

lemma roundHalfEven_bounds:
  shows "\<lfloor>y\<rfloor> \<le> roundHalfEven y" and "roundHalfEven y \<le> \<lfloor>y\<rfloor> + 1"
  by (simp_all add: roundHalfEven_def Let_def)

lemma ulp_pos: "0 < (2::real) powi ulpExponent x"
  by simp

lemma ulpExponent_ge: "- 1074 \<le> ulpExponent x"
  by (simp add: ulpExponent_def)

lemma powi_le: "a \<le> b \<Longrightarrow> (2::real) powi a \<le> 2 powi b"
  by (rule power_int_increasing) simp_all

lemma powi_split: "(2::real) powi (a + b) = 2 powi a * 2 powi b"
  by (simp add: power_int_add)

lemma scaled_below_53:
  assumes "0 < x"
  shows "x / 2 powi ulpExponent x < 2 ^ 53"
proof -
  have "(2::real) powi (exponent x - 52) \<le> 2 powi ulpExponent x"
    by (rule powi_le) (simp add: ulpExponent_def)
  then have "2 ^ 53 * (2::real) powi (exponent x - 52) \<le> 2 ^ 53 * 2 powi ulpExponent x"
    by simp
  moreover have "(2::real) powi (exponent x + 1) = 2 ^ 53 * 2 powi (exponent x - 52)"
    using powi_split [of 53 "exponent x - 52"] by (simp add: add.commute)
  ultimately have "x < 2 ^ 53 * 2 powi ulpExponent x"
    using exponent_bounds(2) [OF assms] by linarith
  then show ?thesis
    by (simp add: divide_less_eq)
qed

lemma roundToDouble_pos:
  assumes "0 < x"
  shows "roundToDouble x = of_int (roundHalfEven (x / 2 powi ulpExponent x)) * 2 powi ulpExponent x"
  using assms by (simp add: roundToDouble_def Let_def)

lemma onGrid_roundToDouble:
  assumes "0 \<le> x"
  shows "onGrid (roundToDouble x)"
proof (cases "x = 0")
  case True
  have "(0::real) = of_int 0 * 2 powi 0" by simp
  then have "onGrid 0" unfolding onGrid_def by (intro exI [of _ 0] conjI) simp_all
  with True show ?thesis by (simp add: roundToDouble_def)
next
  case False
  with assms have p: "0 < x" by simp
  let ?u = "(2::real) powi ulpExponent x"
  let ?k = "roundHalfEven (x / ?u)"
  have "0 \<le> x / ?u" using p by simp
  then have "0 \<le> \<lfloor>x / ?u\<rfloor>" by simp
  with roundHalfEven_bounds(1) [of "x / ?u"] have k0: "0 \<le> ?k" by linarith
  from scaled_below_53 [OF p] have "\<lfloor>x / ?u\<rfloor> < 2 ^ 53"
    by (simp add: floor_less_iff)
  with roundHalfEven_bounds(2) [of "x / ?u"] have k1: "?k \<le> 2 ^ 53" by linarith
  show ?thesis
    unfolding onGrid_def roundToDouble_pos [OF p]
    using k0 k1 ulpExponent_ge [of x] by blast
qed

lemma grid_le_roundToDouble:
  assumes k0: "0 \<le> k" and k1: "k \<le> 2 ^ 53" and j: "- 1074 \<le> j"
    and le: "of_int k * 2 powi j \<le> x" and p: "0 < x"
  shows "of_int k * 2 powi j \<le> roundToDouble x"
proof -
  let ?t = "ulpExponent x"
  let ?u = "(2::real) powi ?t"
  let ?F = "\<lfloor>x / ?u\<rfloor>"
  have u: "0 < ?u" by simp
  have fl: "of_int k * 2 powi j \<le> of_int ?F * ?u"
  proof (cases "?t \<le> j")
    case True
    have "(2::real) powi j = 2 powi (j - ?t) * ?u"
      using powi_split [of "j - ?t" ?t] by simp
    also have "(2::real) powi (j - ?t) = 2 ^ nat (j - ?t)"
      using True by (simp add: powi_nat)
    finally have e: "of_int k * 2 powi j = of_int (k * 2 ^ nat (j - ?t)) * ?u"
      by simp
    with le have "of_int (k * 2 ^ nat (j - ?t)) * ?u \<le> x" by simp
    then have "of_int (k * 2 ^ nat (j - ?t)) \<le> x / ?u"
      using u by (simp add: pos_le_divide_eq)
    then have "k * 2 ^ nat (j - ?t) \<le> ?F"
      by (simp add: le_floor_iff)
    then have "real_of_int (k * 2 ^ nat (j - ?t)) \<le> of_int ?F"
      by (simp only: of_int_le_iff)
    then have "of_int (k * 2 ^ nat (j - ?t)) * ?u \<le> of_int ?F * ?u"
      using u by (simp only: mult_le_cancel_right_pos)
    then show ?thesis unfolding e .
  next
    case False
    then have jt: "j \<le> ?t - 1" by simp
    from False j have t: "?t = exponent x - 52"
      by (simp add: ulpExponent_def max_def split: if_splits)
    have "(2::real) powi exponent x = 2 ^ 52 * ?u"
      using powi_split [of 52 "exponent x - 52"] by (simp add: t)
    with exponent_bounds(1) [OF p] have "2 ^ 52 * ?u \<le> x" by simp
    then have "(2::real) ^ 52 \<le> x / ?u"
      using u by (simp add: pos_le_divide_eq)
    then have "real_of_int (2 ^ 52) \<le> x / ?u" by simp
    then have "(2::int) ^ 52 \<le> ?F"
      by (simp only: le_floor_iff)
    then have "real_of_int (2 ^ 52) \<le> of_int ?F"
      by (simp only: of_int_le_iff)
    then have F: "2 ^ 52 * ?u \<le> of_int ?F * ?u"
      using u by simp
    have "(2::real) powi j \<le> 2 powi (?t - 1)"
      using jt by (rule powi_le)
    moreover have "(2::real) powi (?t - 1) = ?u / 2"
      using powi_split [of ?t "- 1"] by simp
    ultimately have pj: "(2::real) powi j \<le> ?u / 2" by simp
    have "real_of_int k \<le> 2 ^ 53"
      using k1 by (metis of_int_le_iff of_int_numeral of_int_power)
    moreover have "0 \<le> real_of_int k" using k0 by simp
    moreover have "0 \<le> (2::real) powi j" by simp
    ultimately have "of_int k * 2 powi j \<le> 2 ^ 53 * (?u / 2)"
      using pj by (intro mult_mono) simp_all
    also have "\<dots> = 2 ^ 52 * ?u" by simp
    finally show ?thesis using F by linarith
  qed
  have "real_of_int ?F \<le> of_int (roundHalfEven (x / ?u))"
    using roundHalfEven_bounds(1) [of "x / ?u"] by (simp only: of_int_le_iff)
  then have "of_int ?F * ?u \<le> of_int (roundHalfEven (x / ?u)) * ?u"
    using u by (simp only: mult_le_cancel_right_pos)
  with fl show ?thesis
    unfolding roundToDouble_pos [OF p] by linarith
qed

lemma onGrid_nonneg: "onGrid x \<Longrightarrow> 0 \<le> x"
  by (auto simp: onGrid_def)

lemma onGrid_le_roundToDouble:
  assumes "onGrid s" and "0 \<le> d"
  shows "s \<le> roundToDouble (s + d)"
proof (cases "s + d = 0")
  case True
  with onGrid_nonneg [OF assms(1)] assms(2) have "s = 0" by linarith
  with True show ?thesis by (simp add: roundToDouble_def)
next
  case False
  with onGrid_nonneg [OF assms(1)] assms(2) have p: "0 < s + d" by linarith
  from assms(1) obtain k j where "0 \<le> k" "k \<le> 2 ^ 53" "- 1074 \<le> j" and s: "s = of_int k * 2 powi j"
    unfolding onGrid_def by blast
  moreover have "of_int k * 2 powi j \<le> s + d" using s assms(2) by simp
  ultimately have "of_int k * 2 powi j \<le> roundToDouble (s + d)"
    using p by (intro grid_le_roundToDouble)
  with s show ?thesis by simp
qed

lemma isDouble_onGrid:
  assumes "isDouble x" and "0 \<le> x"
  shows "onGrid x"
proof (cases "x = 0")
  case True
  have "(0::real) = of_int 0 * 2 powi 0" by simp
  then have "onGrid 0" unfolding onGrid_def by (intro exI [of _ 0] conjI) simp_all
  with True show ?thesis by simp
next
  case False
  with assms(2) have p: "0 < x" by simp
  let ?u = "(2::real) powi ulpExponent x"
  let ?k = "\<lfloor>x / ?u\<rfloor>"
  from assms(1) False p have i: "of_int ?k = x / ?u"
    by (simp add: isDouble_def Let_def)
  have "x = x / ?u * ?u" by simp
  then have e: "x = of_int ?k * ?u" by (simp only: i)
  have k0: "0 \<le> ?k" using p by simp
  from scaled_below_53 [OF p] have "?k < 2 ^ 53"
    by (simp add: floor_less_iff)
  then have k1: "?k \<le> 2 ^ 53" by simp
  show ?thesis
    unfolding onGrid_def using e k0 k1 ulpExponent_ge [of x] by blast
qed

lemma onGrid_max: "onGrid a \<Longrightarrow> onGrid b \<Longrightarrow> onGrid (max a b)"
  by (simp add: max_def)

text \<open>Sums that are doubles are exact; the sum of the doubles nearest to 0.1 and 0.7 is
  rounded down (to the double printed 0.7999999999999999), and the sum of the doubles
  nearest to 0.1 and 0.2 is a tie, rounded to the even mantissa (0.30000000000000004).\<close>

lemma roundToDouble_examples:
  "roundToDouble (3 / 2) = 3 / 2" "roundToDouble 2 = 2" "roundToDouble (5 / 2) = 5 / 2"
  "roundToDouble (11 / 2) = 11 / 2"
  "roundToDouble (28823037615171173 / 36028797018963968) = 7205759403792793 / 9007199254740992"
  "roundToDouble (10808639105689191 / 36028797018963968) = 5404319552844596 / 18014398509481984"
  by code_simp+

lemma isDouble_examples:
  "isDouble 0" "isDouble 1" "isDouble (9 / 8)" "isDouble 5" "isDouble (1 / 4)"
  "isDouble (3602879701896397 / 36028797018963968)"
  "isDouble (3152519739159347 / 4503599627370496)"
  "\<not> isDouble (1 / 10)" "\<not> isDouble (7 / 10)"
  by code_simp+

section \<open>The playback cursor\<close>

lemma cursorInv_snoc:
  assumes inv: "cursorInv nonneg n T" and le: "n \<le> st"
    and h: "nonneg \<longrightarrow> onGrid st \<and> 0 \<le> d"
  shows "cursorInv nonneg (roundToDouble (st + d)) (T @ [(st, d)])"
proof -
  from inv le have no: "nonOverlappingRounded (T @ [(st, d)])"
    by (auto simp: cursorInv_def nonOverlappingRounded_snoc)
  have "nonneg \<longrightarrow> onGrid (roundToDouble (st + d)) \<and> sorted (map fst (T @ [(st, d)]))
      \<and> (\<forall>t \<in> set (map fst (T @ [(st, d)])). t \<le> roundToDouble (st + d))"
  proof
    assume nn: nonneg
    with h have g: "onGrid st" and d: "0 \<le> d" by simp_all
    from onGrid_nonneg [OF g] d have "0 \<le> st + d" by simp
    then have g': "onGrid (roundToDouble (st + d))" by (rule onGrid_roundToDouble)
    have up: "st \<le> roundToDouble (st + d)" using g d by (rule onGrid_le_roundToDouble)
    from inv nn have so: "sorted (map fst T)" and below: "\<forall>t \<in> set (map fst T). t \<le> n"
      by (simp_all add: cursorInv_def)
    from below le have below': "\<forall>t \<in> set (map fst T). t \<le> st" by auto
    with so have so': "sorted (map fst (T @ [(st, d)]))"
      by (simp add: sorted_append)
    from below' up have "\<forall>t \<in> set (map fst (T @ [(st, d)])). t \<le> roundToDouble (st + d)"
      by auto
    with g' so' show "onGrid (roundToDouble (st + d)) \<and> sorted (map fst (T @ [(st, d)]))
      \<and> (\<forall>t \<in> set (map fst (T @ [(st, d)])). t \<le> roundToDouble (st + d))"
      by blast
  qed
  with no show ?thesis
    by (simp add: cursorInv_def)
qed

lemma cursorInv_raise:
  assumes inv: "cursorInv nonneg n T" and h: "nonneg \<longrightarrow> onGrid c"
  shows "cursorInv nonneg (max n c) T"
  using assms by (auto simp: cursorInv_def onGrid_max)

text \<open>Each half of the scheduling block keeps the cursor invariant on its own, so the
  invariant does not depend on what runs between the two halves.\<close>

lemma cursorInv_beforeDecode:
  assumes "cursorInv nonneg (nextStartTimeRef s) (scheduled (drop k (trace s)))"
    and "nonneg \<longrightarrow> onGrid clock"
  shows "cursorInv nonneg (nextStartTimeRef (beforeDecode clock s)) (scheduled (drop k (trace (beforeDecode clock s))))"
  using cursorInv_raise [OF assms] by (simp add: beforeDecode_def)

lemma cursorInv_afterDecode:
  assumes inv: "cursorInv nonneg (nextStartTimeRef s) (scheduled (drop k (trace s)))"
    and k: "k \<le> length (trace s)" and d: "nonneg \<longrightarrow> 0 \<le> duration"
  shows "cursorInv nonneg (nextStartTimeRef (afterDecode duration s)) (scheduled (drop k (trace (afterDecode duration s))))"
proof -
  from inv d have "nonneg \<longrightarrow> onGrid (nextStartTimeRef s) \<and> 0 \<le> duration"
    by (simp add: cursorInv_def)
  from cursorInv_snoc [OF inv order_refl this] k show ?thesis
    by (simp add: afterDecode_def Let_def scheduled_append)
qed

lemma step_cursor:
  assumes "\<not> resetsCursor ev"
  shows "(\<exists>b. trace (step dur env ev s) = trace s @ [SourceStart (created s) (max (nextStartTimeRef s) (currentTime env)) (dur b)]
           \<and> nextStartTimeRef (step dur env ev s) = roundToDouble (max (nextStartTimeRef s) (currentTime env) + dur b))
       \<or> (\<exists>e. trace (step dur env ev s) = trace s @ e \<and> scheduled e = []
           \<and> nextStartTimeRef (step dur env ev s) = nextStartTimeRef s)"
proof (cases ev)
  case (OnMessage m)
  with assms have ni: "\<not> interrupted m" by simp
  show ?thesis
    using ni by (auto simp: OnMessage step_def onmessage_def scheduleBuffer_def beforeDecode_def afterDecode_def Let_def split: option.splits sum.splits)
next
  case StopSession
  then show ?thesis
    by (auto simp: step_def stopSession_def split: option.splits)
next
  case (SourceEnded x)
  then show ?thesis
    by (auto simp: step_def onended_def Let_def)
qed (use assms in \<open>auto simp: step_def startSession_def startSession_catch_def onopen_def onerror_def onclose_def\<close>)

lemma cursorInv_step:
  assumes nr: "\<not> resetsCursor ev"
    and k: "k \<le> length (trace s)"
    and inv: "cursorInv nonneg (nextStartTimeRef s) (scheduled (drop k (trace s)))"
    and h: "nonneg \<longrightarrow> (\<forall>b. 0 \<le> dur b) \<and> 0 \<le> currentTime env \<and> isDouble (currentTime env)"
  shows "k \<le> length (trace (step dur env ev s))
       \<and> cursorInv nonneg (nextStartTimeRef (step dur env ev s)) (scheduled (drop k (trace (step dur env ev s))))"
  using step_cursor [OF nr, of dur env s]
proof (elim disjE exE conjE)
  fix b
  assume t: "trace (step dur env ev s) = trace s @ [SourceStart (created s) (max (nextStartTimeRef s) (currentTime env)) (dur b)]"
    and n: "nextStartTimeRef (step dur env ev s) = roundToDouble (max (nextStartTimeRef s) (currentTime env) + dur b)"
  have g: "nonneg \<longrightarrow> onGrid (max (nextStartTimeRef s) (currentTime env)) \<and> 0 \<le> dur b"
  proof
    assume nn: nonneg
    with h have "onGrid (currentTime env)" by (simp add: isDouble_onGrid)
    moreover from inv nn have "onGrid (nextStartTimeRef s)" by (simp add: cursorInv_def)
    ultimately show "onGrid (max (nextStartTimeRef s) (currentTime env)) \<and> 0 \<le> dur b"
      using h nn by (simp add: onGrid_max)
  qed
  have "nextStartTimeRef s \<le> max (nextStartTimeRef s) (currentTime env)" by simp
  from cursorInv_snoc [OF inv this g] k show ?thesis
    unfolding t n by (simp add: scheduled_append)
next
  fix e
  assume t: "trace (step dur env ev s) = trace s @ e" and e: "scheduled e = []"
    and n: "nextStartTimeRef (step dur env ev s) = nextStartTimeRef s"
  show ?thesis
    using k inv unfolding t n by (simp add: scheduled_append e)
qed

lemma cursorInv_run:
  assumes "\<forall>(env, ev) \<in> set evs. \<not> resetsCursor ev"
    and "k \<le> length (trace s)"
    and "cursorInv nonneg (nextStartTimeRef s) (scheduled (drop k (trace s)))"
    and "nonneg \<longrightarrow> (\<forall>b. 0 \<le> dur b) \<and> (\<forall>(env, ev) \<in> set evs. 0 \<le> currentTime env \<and> isDouble (currentTime env))"
  shows "k \<le> length (trace (run dur evs s))
       \<and> cursorInv nonneg (nextStartTimeRef (run dur evs s)) (scheduled (drop k (trace (run dur evs s))))"
  using assms
proof (induction evs arbitrary: s)
  case Nil
  then show ?case by simp
next
  case (Cons x evs)
  obtain env ev where x: "x = (env, ev)" by (cases x)
  from Cons.prems(1) have nr: "\<not> resetsCursor ev" and rest: "\<forall>(env, ev) \<in> set evs. \<not> resetsCursor ev"
    by (auto simp: x)
  from Cons.prems(4) have h: "nonneg \<longrightarrow> (\<forall>b. 0 \<le> dur b) \<and> 0 \<le> currentTime env \<and> isDouble (currentTime env)"
    and hs: "nonneg \<longrightarrow> (\<forall>b. 0 \<le> dur b) \<and> (\<forall>(env, ev) \<in> set evs. 0 \<le> currentTime env \<and> isDouble (currentTime env))"
    by (auto simp: x)
  from cursorInv_step [OF nr Cons.prems(2) Cons.prems(3) h]
  have "k \<le> length (trace (step dur env ev s))"
    and "cursorInv nonneg (nextStartTimeRef (step dur env ev s)) (scheduled (drop k (trace (step dur env ev s))))"
    by simp_all
  from Cons.IH [OF rest this hs] show ?case by (simp add: x)
qed

lemma onmessage_scheduled:
  "scheduled (newCalls s (snd (onmessage dur cl env m s))) =
     (case base64AudioOf m of
        Inr (Some b) \<Rightarrow> if b \<noteq> [] then [(max (nextStartTimeRef s) (currentTime env), dur b)] else []
      | _ \<Rightarrow> [])"
  by (simp add: newCalls_def onmessage_def scheduleBuffer_def beforeDecode_def afterDecode_def stopAllSources_def Let_def
      scheduled_append scheduled_map_SourceStop split: option.splits sum.splits)

lemma onmessage_cursor:
  assumes "base64AudioOf m = Inr (Some b)" and "b \<noteq> []" and "\<not> interrupted m"
  shows "nextStartTimeRef (snd (onmessage dur cl env m s)) =
           roundToDouble (max (nextStartTimeRef s) (currentTime env) + dur b)"
  using assms by (simp add: onmessage_def scheduleBuffer_def beforeDecode_def afterDecode_def Let_def)

lemma onmessage_throws:
  assumes "base64AudioOf m = Inl exception"
  shows "fst (onmessage dur cl env m s) = Some exception"
    and "sourcesRef (snd (onmessage dur cl env m s)) = sourcesRef s"
    and "nextStartTimeRef (snd (onmessage dur cl env m s)) = nextStartTimeRef s"
    and "isSpeaking (snd (onmessage dur cl env m s)) = isSpeaking s"
    and "trace (snd (onmessage dur cl env m s)) = trace s"
  using assms by (simp_all add: onmessage_def Let_def)

section \<open>Playback scheduling\<close>

text \<open>
  C1 as stated fails, the sum being exact: under a decoder that gives every buffer the
  double nearest to 0.7 seconds, a buffer started at the double nearest to 0.1 leaves the
  cursor at their sum as the language computes it, 7205759403792793 / 2 ^ 53 (printed
  0.7999999999999999), and the next buffer starts there, below the exact sum of the
  first buffer's start and duration.
\<close>

theorem schedule_rounds_down:
  "isDouble tenth \<and> isDouble (sevenTenths ''AAAA'')
   \<and> scheduled (newCalls initialState (run sevenTenths roundedDown initialState))
     = [(tenth, sevenTenths ''AAAA''), (7205759403792793 / 9007199254740992, sevenTenths ''BBBB'')]
   \<and> 7205759403792793 / 9007199254740992 < tenth + sevenTenths ''AAAA''
   \<and> \<not> nonOverlapping (scheduled (newCalls initialState (run sevenTenths roundedDown initialState)))"
proof -
  have i: "isDouble tenth \<and> isDouble (sevenTenths ''AAAA'')"
    by (simp add: tenth_def sevenTenths_def isDouble_examples)
  have v: "scheduled (newCalls initialState (run sevenTenths roundedDown initialState))
     = [(tenth, sevenTenths ''AAAA''), (7205759403792793 / 9007199254740992, sevenTenths ''BBBB'')]"
    by (simp add: roundedDown_def newCalls_def step_def onmessage_def base64AudioOf_def audio_def
        accumulate_def scheduleBuffer_def beforeDecode_def afterDecode_def set_add_def fireTimers_def
        emotionEffect_def noContent_def envAt_def sevenTenths_def tenth_def initialState_def Let_def
        roundToDouble_examples)
  have l: "7205759403792793 / 9007199254740992 < tenth + sevenTenths ''AAAA''"
    by (simp add: tenth_def sevenTenths_def)
  from i v l show ?thesis
    by simp
qed

text \<open>
  C1, amended. Over any run of events none of which resets the playback cursor (no
  message carrying \<^verbatim>\<open>interrupted\<close>, no text send), the buffers started during the run do
  not overlap in the arithmetic of the language: each starts no earlier than the
  double-precision sum of the start and the duration of the one before it. When the
  cursor at the beginning and the clock readings are non-negative doubles and durations
  are non-negative, the start times are non-decreasing. A message with audio starts its
  buffer at \<open>max nextStartTime currentTime\<close> and, unless it also carries
  \<^verbatim>\<open>interrupted\<close>, leaves the cursor at the double-precision sum of that start and the
  duration.
\<close>

theorem schedule_non_overlapping:
  assumes "\<forall>(env, ev) \<in> set evs. \<not> resetsCursor ev"
  shows "nonOverlappingRounded (scheduled (newCalls s (run dur evs s)))
       \<and> ((\<forall>b. 0 \<le> dur b) \<and> (\<forall>(env, ev) \<in> set evs. 0 \<le> currentTime env \<and> isDouble (currentTime env))
            \<and> 0 \<le> nextStartTimeRef s \<and> isDouble (nextStartTimeRef s)
          \<longrightarrow> sorted (map fst (scheduled (newCalls s (run dur evs s)))))
       \<and> (\<forall>cl env m b. base64AudioOf m = Inr (Some b) \<and> b \<noteq> [] \<longrightarrow>
            scheduled (newCalls s (snd (onmessage dur cl env m s))) = [(max (nextStartTimeRef s) (currentTime env), dur b)]
            \<and> (\<not> interrupted m \<longrightarrow>
                 nextStartTimeRef (snd (onmessage dur cl env m s))
                   = roundToDouble (max (nextStartTimeRef s) (currentTime env) + dur b)))"
proof -
  let ?H = "(\<forall>b. 0 \<le> dur b) \<and> (\<forall>(env, ev) \<in> set evs. 0 \<le> currentTime env \<and> isDouble (currentTime env))
            \<and> 0 \<le> nextStartTimeRef s \<and> isDouble (nextStartTimeRef s)"
  have i: "cursorInv ?H (nextStartTimeRef s) (scheduled (drop (length (trace s)) (trace s)))"
    by (simp add: cursorInv_def isDouble_onGrid)
  have h: "?H \<longrightarrow> (\<forall>b. 0 \<le> dur b) \<and> (\<forall>(env, ev) \<in> set evs. 0 \<le> currentTime env \<and> isDouble (currentTime env))"
    by blast
  from cursorInv_run [OF assms order_refl i h]
  have "nonOverlappingRounded (scheduled (newCalls s (run dur evs s)))
       \<and> (?H \<longrightarrow> sorted (map fst (scheduled (newCalls s (run dur evs s)))))"
    by (simp add: cursorInv_def newCalls_def)
  then show ?thesis
    by (simp add: onmessage_scheduled onmessage_cursor)
qed

theorem schedule_non_overlapping_witness:
  "(\<forall>b. 0 \<le> eighth b)
   \<and> isDouble (nextStartTimeRef initialState)
   \<and> scheduled (newCalls initialState (run eighth threeBuffers initialState))
       = [(1, 1/2), (3/2, 1/2), (5, 1/2)]
   \<and> nonOverlappingRounded (scheduled (newCalls initialState (run eighth threeBuffers initialState)))
   \<and> sorted (map fst (scheduled (newCalls initialState (run eighth threeBuffers initialState))))
   \<and> nonOverlappingRounded (scheduled (newCalls initialState (run sevenTenths roundedDown initialState)))
   \<and> sorted (map fst (scheduled (newCalls initialState (run sevenTenths roundedDown initialState))))
   \<and> scheduled (newCalls playing
         (snd (onmessage eighth (callbacks playing) (envAt 30 (9/8)) (noContent\<lparr>modelTurn := audio ''CCCC''\<rparr>) playing)))
       = [(2, 1/2)]
   \<and> nextStartTimeRef
         (snd (onmessage eighth (callbacks playing) (envAt 30 (9/8)) (noContent\<lparr>modelTurn := audio ''CCCC''\<rparr>) playing))
       = 5/2"
proof -
  have h: "\<forall>(env, ev) \<in> set threeBuffers. \<not> resetsCursor ev"
    by (simp add: threeBuffers_def noContent_def)
  have d: "\<forall>b. 0 \<le> eighth b"
    by (simp add: eighth_def)
  have c: "\<forall>(env, ev) \<in> set threeBuffers. 0 \<le> currentTime env \<and> isDouble (currentTime env)"
    by (simp add: threeBuffers_def envAt_def isDouble_examples)
  have z: "0 \<le> nextStartTimeRef initialState \<and> isDouble (nextStartTimeRef initialState)"
    by (simp add: initialState_def isDouble_examples)
  have v: "scheduled (newCalls initialState (run eighth threeBuffers initialState))
             = [(1, 1/2), (3/2, 1/2), (5, 1/2)]"
    by (simp add: threeBuffers_def newCalls_def step_def onmessage_def base64AudioOf_def audio_def
        accumulate_def scheduleBuffer_def beforeDecode_def afterDecode_def set_add_def fireTimers_def
        emotionEffect_def noContent_def envAt_def eighth_def initialState_def Let_def
        roundToDouble_examples)
  have p: "nextStartTimeRef playing = 2"
    by (simp add: playing_def connect_def step_def onmessage_def base64AudioOf_def audio_def
        accumulate_def scheduleBuffer_def beforeDecode_def afterDecode_def set_add_def fireTimers_def
        emotionEffect_def noContent_def envAt_def eighth_def initialState_def startSession_def
        onopen_def Let_def roundToDouble_examples)
  have m: "base64AudioOf (noContent\<lparr>modelTurn := audio ''CCCC''\<rparr>) = Inr (Some ''CCCC'') \<and> ''CCCC'' \<noteq> []"
    and ni: "\<not> interrupted (noContent\<lparr>modelTurn := audio ''CCCC''\<rparr>)"
    by (simp_all add: noContent_def base64AudioOf_def audio_def)
  from schedule_non_overlapping [OF h, of playing eighth] m ni
  have one: "scheduled (newCalls playing
         (snd (onmessage eighth (callbacks playing) (envAt 30 (9/8)) (noContent\<lparr>modelTurn := audio ''CCCC''\<rparr>) playing)))
       = [(max (nextStartTimeRef playing) (currentTime (envAt 30 (9/8))), eighth ''CCCC'')]
     \<and> nextStartTimeRef
         (snd (onmessage eighth (callbacks playing) (envAt 30 (9/8)) (noContent\<lparr>modelTurn := audio ''CCCC''\<rparr>) playing))
       = roundToDouble (max (nextStartTimeRef playing) (currentTime (envAt 30 (9/8))) + eighth ''CCCC'')"
    by blast
  have one': "scheduled (newCalls playing
         (snd (onmessage eighth (callbacks playing) (envAt 30 (9/8)) (noContent\<lparr>modelTurn := audio ''CCCC''\<rparr>) playing)))
       = [(2, 1/2)]
     \<and> nextStartTimeRef
         (snd (onmessage eighth (callbacks playing) (envAt 30 (9/8)) (noContent\<lparr>modelTurn := audio ''CCCC''\<rparr>) playing))
       = 5/2"
    using one by (simp add: p envAt_def eighth_def roundToDouble_examples)
  have h': "\<forall>(env, ev) \<in> set roundedDown. \<not> resetsCursor ev"
    by (simp add: roundedDown_def noContent_def)
  have d': "\<forall>b. 0 \<le> sevenTenths b"
    by (simp add: sevenTenths_def)
  have c': "\<forall>(env, ev) \<in> set roundedDown. 0 \<le> currentTime env \<and> isDouble (currentTime env)"
    by (simp add: roundedDown_def envAt_def tenth_def isDouble_examples)
  from schedule_non_overlapping [OF h', of initialState sevenTenths] d' c' z
  have r: "nonOverlappingRounded (scheduled (newCalls initialState (run sevenTenths roundedDown initialState)))
     \<and> sorted (map fst (scheduled (newCalls initialState (run sevenTenths roundedDown initialState))))"
    by blast
  from schedule_non_overlapping [OF h, of initialState eighth] d c z v one' r show ?thesis
    by blast
qed

lemmas run_simps = step_def onmessage_def base64AudioOf_def audio_def accumulate_def appendText_def
  flushTurn_def scheduleBuffer_def beforeDecode_def afterDecode_def
  stopAllSources_def set_add_def set_delete_def onended_def fireTimers_def emotionEffect_def
  noContent_def envAt_def eighth_def initialState_def stopSession_def handleSendText_def
  startSession_def startSession_catch_def onopen_def onerror_def onclose_def Let_def
  roundToDouble_examples

section \<open>Interruption\<close>



section \<open>The turn flush\<close>

lemma onmessage_flush_closure:
  assumes "turnComplete m"
  shows "messages (snd (onmessage dur cl env m s)) =
           messages s
           @ (if closedInput cl \<noteq> [] then [\<lparr>role = User, text_str = closedInput cl, timestamp = now env\<rparr>] else [])
           @ (if closedOutput cl \<noteq> [] then [\<lparr>role = Model, text_str = closedOutput cl, timestamp = now env\<rparr>] else [])"
  using assms
  by (simp add: onmessage_def flushTurn_def scheduleBuffer_def beforeDecode_def afterDecode_def stopAllSources_def Let_def
      split: option.splits sum.splits)

lemma detectEmotion_out1: "detectEmotion ''out1 '' = Default"
  by code_simp

lemma detectEmotion_out2: "detectEmotion ''out1 out2'' = Default"
  by code_simp

text \<open>
  C4, on the run that opens a session from the freshly mounted component and receives the
  fragments \<open>in1\<close>, \<open>out1\<close>, \<open>in2\<close>, \<open>out2\<close> and then turn-complete. Before the
  turn-complete message the two buffers hold \<open>in1 in2\<close> and \<open>out1 out2\<close>; after it both
  buffers are empty and the message log is still empty: the updater of
  \<^verbatim>\<open>setMessages\<close> reads the \<^verbatim>\<open>currentInput\<close> and \<^verbatim>\<open>currentOutput\<close> of the render in
  which \<^verbatim>\<open>startSession\<close> was called, which are empty strings.
\<close>

theorem turn_flush_reads_closure:
  "currentInput (run eighth (connect @ butlast interleavedTurn) initialState) = ''in1 in2''
   \<and> currentOutput (run eighth (connect @ butlast interleavedTurn) initialState) = ''out1 out2''
   \<and> messages (run eighth (connect @ interleavedTurn) initialState) = []
   \<and> currentInput (run eighth (connect @ interleavedTurn) initialState) = []
   \<and> currentOutput (run eighth (connect @ interleavedTurn) initialState) = []"
  by (simp add: connect_def interleavedTurn_def run_simps detectEmotion_out1 detectEmotion_out2)

section \<open>The active set and \<open>isSpeaking\<close>\<close>

text \<open>Every event other than \<open>StopSession\<close> keeps the active set empty exactly when
  \<open>isSpeaking\<close> is false.\<close>

lemma speakingInv_step:
  assumes "ev \<noteq> StopSession" and "speakingInv s"
  shows "speakingInv (step dur env ev s)"
proof (cases ev)
  case (OnMessage m)
  then show ?thesis using assms(2)
    by (auto simp: speakingInv_def step_def onmessage_def scheduleBuffer_def beforeDecode_def afterDecode_def stopAllSources_def
        set_add_def Let_def split: option.splits sum.splits)
next
  case (SourceEnded x)
  then show ?thesis using assms(2)
    by (auto simp: speakingInv_def step_def onended_def set_delete_def Let_def)
next
  case SendText
  then show ?thesis using assms(2)
    by (auto simp: speakingInv_def step_def handleSendText_def stopAllSources_def Let_def)
qed (use assms in \<open>auto simp: speakingInv_def step_def startSession_def startSession_catch_def onopen_def onerror_def onclose_def\<close>)


text \<open>
  C7, on the run that opens a session, schedules one buffer, calls \<^verbatim>\<open>stopSession\<close> and
  opens a second session before the buffer has ended. \<^verbatim>\<open>stopSession\<close> sets \<open>isSpeaking\<close>
  to false but neither stops nor removes the scheduled source (the interrupt branch of
  \<^verbatim>\<open>onmessage\<close> and \<^verbatim>\<open>handleSendText\<close> do both): in the second session the active set
  holds the source while \<open>isSpeaking\<close> is false.
\<close>

theorem stopSession_leaves_sources:
  "status (run eighth restartWhilePlaying initialState) = CONNECTED
   \<and> sessionRef (run eighth restartWhilePlaying initialState) = Some 1
   \<and> sourcesRef (run eighth restartWhilePlaying initialState) = [0]
   \<and> \<not> isSpeaking (run eighth restartWhilePlaying initialState)
   \<and> trace (run eighth restartWhilePlaying initialState) = [SourceStart 0 1 (1/2), SessionClose 0]"
  by (simp add: restartWhilePlaying_def connect_def run_simps)

section \<open>The decay of the emotion\<close>

lemma detectEmotion_sorry: "detectEmotion ''i am sorry'' = Empathy"
  by code_simp

lemma detectEmotion_great: "detectEmotion ''that is great'' = Joy"
  by code_simp

lemma timers_handle: "set (timers s) \<subseteq> set (timers (handle dur env ev s))"
proof (cases ev)
  case (OnMessage m)
  then show ?thesis
    by (auto simp: onmessage_def accumulate_def flushTurn_def scheduleBuffer_def beforeDecode_def afterDecode_def stopAllSources_def
        Let_def split: option.splits sum.splits)
next
  case (SourceEnded x)
  then show ?thesis by (auto simp: onended_def Let_def)
next
  case SendText
  then show ?thesis by (auto simp: handleSendText_def stopAllSources_def Let_def)
next
  case StopSession
  then show ?thesis by (auto simp: stopSession_def split: option.splits)
qed (auto simp: startSession_def startSession_catch_def onopen_def onerror_def onclose_def)

lemma timers_fireTimers: "due \<in> set (timers s) \<Longrightarrow> t < due \<Longrightarrow> due \<in> set (timers (fireTimers t s))"
  by (simp add: fireTimers_def)

lemma timers_step:
  assumes "due \<in> set (timers s)" and "now env < due"
  shows "due \<in> set (timers (step dur env ev s))"
  using timers_handle [of "fireTimers (now env) s" dur env ev] timers_fireTimers [OF assms]
  by (auto simp: step_def)

lemma timers_run:
  assumes "due \<in> set (timers s)" and "\<forall>(env, ev) \<in> set evs. now env < due"
  shows "due \<in> set (timers (run dur evs s))"
  using assms
proof (induction evs arbitrary: s)
  case Nil
  then show ?case by simp
next
  case (Cons x evs)
  obtain env ev where x: "x = (env, ev)" by (cases x)
  from Cons.prems have "due \<in> set (timers (step dur env ev s))"
    by (auto simp: x intro: timers_step)
  with Cons.IH [of "step dur env ev s"] Cons.prems(2) show ?case
    by (simp add: x)
qed

lemma timers_turnComplete:
  assumes "turnComplete m"
  shows "now env + 2000 \<in> set (timers (step dur env (OnMessage m) s))"
  using assms
  by (simp add: step_def onmessage_def flushTurn_def scheduleBuffer_def beforeDecode_def afterDecode_def stopAllSources_def Let_def
      split: option.splits sum.splits)

lemma emotion_due:
  assumes "due \<in> set (timers s)" and "due \<le> now env"
  shows "emotion (step dur env Idle s) = Default"
proof -
  have "list_ex (\<lambda>d. d \<le> now env) (timers s)"
    using assms by (auto simp: list_ex_iff)
  then show ?thesis
    by (simp add: step_def fireTimers_def emotionEffect_def)
qed


text \<open>
  C8 as stated fails on the run \<open>staleDecay\<close>: the turn completes at 2000 ms, the next
  turn's output is classified as empathy at 3000 ms and is still accumulating when, at
  4000 ms, the decay set by the completed turn resets the emotion to the neutral one.
\<close>

theorem decay_resets_next_turn:
  "emotion (run eighth staleDecay initialState) = Empathy
   \<and> currentOutput (run eighth staleDecay initialState) = ''i am sorry''
   \<and> emotion (run eighth (staleDecay @ [(envAt 3999 0, Idle)]) initialState) = Empathy
   \<and> emotion (run eighth (staleDecay @ [(envAt 4000 0, Idle)]) initialState) = Default
   \<and> currentOutput (run eighth (staleDecay @ [(envAt 4000 0, Idle)]) initialState) = ''i am sorry''"
  by (simp add: staleDecay_def connect_def run_simps detectEmotion_sorry detectEmotion_great)

text \<open>After the reset, the next growth of the output text is classified again.\<close>

lemma detectEmotion_sorry_again: "detectEmotion ''i am sorry, truly'' = Empathy"
  by code_simp

lemma classified_again_after_decay:
  "emotion (run eighth (staleDecay @ [(envAt 4000 0, Idle),
       (envAt 4500 0, OnMessage (noContent\<lparr>outputTranscription := Some (Some '', truly'')\<rparr>))]) initialState)
     = Empathy"
  by (simp add: staleDecay_def connect_def run_simps detectEmotion_sorry detectEmotion_great
      detectEmotion_sorry_again)

text \<open>
  C8, amended. A message with turn-complete handled at time \<open>t\<close> sets a decay due at
  \<open>t + 2000\<close> ms. Whatever events follow before the due time (fragments of a new turn and
  their classification included), the decay stays pending, and once the due time is
  reached the emotion is the neutral one.
\<close>

theorem decay_not_cancelled:
  assumes "turnComplete m"
    and "\<forall>(env', ev) \<in> set evs. now env' < now env + 2000"
    and "now env + 2000 \<le> now env''"
  shows "now env + 2000 \<in> set (timers (run dur evs (step dur env (OnMessage m) s)))
       \<and> emotion (step dur env'' Idle (run dur evs (step dur env (OnMessage m) s))) = Default"
proof -
  have "now env + 2000 \<in> set (timers (run dur evs (step dur env (OnMessage m) s)))"
    using timers_run [OF timers_turnComplete [OF assms(1)] assms(2)] .
  with emotion_due [OF _ assms(3)] show ?thesis
    by blast
qed


theorem decay_not_cancelled_witness:
  "turnComplete (noContent\<lparr>turnComplete := True\<rparr>)
   \<and> now (envAt 3000 0) < now (envAt 2000 0) + 2000
   \<and> now (envAt 2000 0) + 2000 \<le> now (envAt 4000 0)
   \<and> emotion (run eighth [(envAt 3000 0, OnMessage (noContent\<lparr>outputTranscription := Some (Some ''i am sorry'')\<rparr>))]
        (step eighth (envAt 2000 0) (OnMessage (noContent\<lparr>turnComplete := True\<rparr>)) initialState)) = Empathy
   \<and> 4000 \<in> set (timers (run eighth [(envAt 3000 0, OnMessage (noContent\<lparr>outputTranscription := Some (Some ''i am sorry'')\<rparr>))]
        (step eighth (envAt 2000 0) (OnMessage (noContent\<lparr>turnComplete := True\<rparr>)) initialState)))
   \<and> emotion (step eighth (envAt 4000 0) Idle
        (run eighth [(envAt 3000 0, OnMessage (noContent\<lparr>outputTranscription := Some (Some ''i am sorry'')\<rparr>))]
          (step eighth (envAt 2000 0) (OnMessage (noContent\<lparr>turnComplete := True\<rparr>)) initialState))) = Default"
proof -
  let ?m = "noContent\<lparr>turnComplete := True\<rparr>"
  let ?evs = "[(envAt 3000 0, OnMessage (noContent\<lparr>outputTranscription := Some (Some ''i am sorry'')\<rparr>))]"
  have h1: "turnComplete ?m"
    by simp
  have h2: "\<forall>(env', ev) \<in> set ?evs. now env' < now (envAt 2000 0) + 2000"
    by (simp add: envAt_def)
  have h3: "now (envAt 2000 0) + 2000 \<le> now (envAt 4000 0)"
    by (simp add: envAt_def)
  have e: "emotion (run eighth ?evs (step eighth (envAt 2000 0) (OnMessage ?m) initialState)) = Empathy"
    by (simp add: run_simps detectEmotion_sorry)
  have n: "now (envAt 2000 0) + 2000 = 4000"
    by (simp add: envAt_def)
  have h2': "now (envAt 3000 0) < now (envAt 2000 0) + 2000"
    by (simp add: envAt_def)
  from decay_not_cancelled [OF h1 h2 h3, of eighth initialState] h1 h2' h3 e show ?thesis
    unfolding n by blast
qed

section \<open>Stopping the session\<close>

text \<open>
  C9. \<^verbatim>\<open>stopSession\<close> leaves the status at \<open>IDLE\<close>, after a first call and after a second
  call in succession. The second call changes nothing and makes no call on any
  collaborator. Called when no session is held, \<^verbatim>\<open>stopSession\<close> makes no call on any
  collaborator either (it closes nothing and stops nothing): it only sets status,
  \<open>isSpeaking\<close>, volume and emotion to their rest values, and leaves a state that is
  already at rest as it is. No branch of the function raises: the only call it makes is
  \<^verbatim>\<open>session.close()\<close>, on a session it holds.
\<close>

theorem stopSession_idempotent:
  "status (stopSession s) = IDLE
   \<and> status (stopSession (stopSession s)) = IDLE
   \<and> stopSession (stopSession s) = stopSession s
   \<and> newCalls (stopSession s) (stopSession (stopSession s)) = []
   \<and> (sessionRef s = None \<longrightarrow>
        newCalls s (stopSession s) = []
        \<and> stopSession s = s\<lparr>status := IDLE, isSpeaking := False, volume := 0, emotion := Default\<rparr>)
   \<and> (sessionRef s = None \<and> status s = IDLE \<and> \<not> isSpeaking s \<and> volume s = 0 \<and> emotion s = Default \<longrightarrow>
        stopSession s = s)"
  by (simp add: stopSession_def newCalls_def split: option.splits)

theorem stopSession_idempotent_witness:
  "sessionRef stopped = None \<and> status stopped = IDLE \<and> \<not> isSpeaking stopped
   \<and> volume stopped = 0 \<and> emotion stopped = Default
   \<and> trace stopped = [SessionClose 0]
   \<and> status (stopSession stopped) = IDLE
   \<and> newCalls stopped (stopSession stopped) = []
   \<and> stopSession stopped = stopped"
proof -
  have h: "sessionRef stopped = None \<and> status stopped = IDLE \<and> \<not> isSpeaking stopped
     \<and> volume stopped = 0 \<and> emotion stopped = Default"
    and t: "trace stopped = [SessionClose 0]"
    by (simp_all add: stopped_def connect_def run_simps)
  note i = stopSession_idempotent [of stopped]
  note c5 = i [THEN conjunct2, THEN conjunct2, THEN conjunct2, THEN conjunct2, THEN conjunct1]
  note c6 = i [THEN conjunct2, THEN conjunct2, THEN conjunct2, THEN conjunct2, THEN conjunct2]
  have s0: "sessionRef stopped = None"
    using h by (rule conjunct1)
  have n: "newCalls stopped (stopSession stopped) = []"
    using c5 [rule_format, OF s0] by (rule conjunct1)
  have e: "stopSession stopped = stopped"
    using c6 [rule_format, OF h] .
  have st: "status (stopSession stopped) = IDLE"
    using i by (rule conjunct1)
  show ?thesis
    by (intro conjI h [THEN conjunct1] h [THEN conjunct2, THEN conjunct1]
        h [THEN conjunct2, THEN conjunct2, THEN conjunct1]
        h [THEN conjunct2, THEN conjunct2, THEN conjunct2, THEN conjunct1]
        h [THEN conjunct2, THEN conjunct2, THEN conjunct2, THEN conjunct2] t st n e)
qed

section \<open>The capture conversion\<close>

lemma sint_toInt16:
  assumes "- 32768 \<le> truncate_real x" and "truncate_real x \<le> 32767"
  shows "sint (toInt16 x) = truncate_real x"
  using assms by (simp add: toInt16_def sint_sbintrunc' signed_take_bit_int_eq_self)

lemma truncate_real_bounds:
  assumes "- 1 \<le> f" and "f < 1"
  shows "- 32768 \<le> truncate_real (f * 32768)" and "truncate_real (f * 32768) \<le> 32767"
proof -
  have lo: "- 32768 \<le> f * 32768" and hi: "f * 32768 < 32768"
    using assms by simp_all
  show "- 32768 \<le> truncate_real (f * 32768)"
    using lo by (simp add: truncate_real_def le_floor_iff le_ceiling_iff)
  show "truncate_real (f * 32768) \<le> 32767"
    using hi by (simp add: truncate_real_def ceiling_le_iff)
qed

text \<open>
  C5 as stated fails: the sample \<open>1\<close> is stored as \<open>- 32768\<close> where the clamped rounding
  gives \<open>32767\<close>, and the sample \<open>3 / 131072\<close> (its product with 32768 is \<open>3 / 4\<close>) is
  stored as \<open>0\<close> where rounding gives \<open>1\<close>.
\<close>

theorem floatToInt16_not_clamped_rounded:
  "sint (floatToInt16 1) = - 32768 \<and> specSample 1 = 32767
   \<and> sint (floatToInt16 (3 / 131072)) = 0 \<and> specSample (3 / 131072) = 1"
  by (simp add: floatToInt16_def toInt16_def truncate_real_def specSample_def round_def)

text \<open>
  C5, amended. For every sample \<open>f\<close> with \<open>- 1 \<le> f < 1\<close> the stored value is
  \<open>f * 32768\<close> truncated towards zero; it lies in the int16 range and has the sign of
  \<open>f\<close> (or is 0), so that \<open>- 1\<close> is stored as \<open>- 32768\<close> without wrapping.
\<close>

theorem floatToInt16_truncates:
  assumes "- 1 \<le> f" and "f < 1"
  shows "sint (floatToInt16 f) = truncate_real (f * 32768)
       \<and> - 32768 \<le> sint (floatToInt16 f) \<and> sint (floatToInt16 f) \<le> 32767
       \<and> (0 \<le> f \<longrightarrow> 0 \<le> sint (floatToInt16 f))
       \<and> (f \<le> 0 \<longrightarrow> sint (floatToInt16 f) \<le> 0)"
proof -
  have e: "sint (floatToInt16 f) = truncate_real (f * 32768)"
    unfolding floatToInt16_def using truncate_real_bounds [OF assms] by (rule sint_toInt16)
  have p: "0 \<le> f \<Longrightarrow> 0 \<le> truncate_real (f * 32768)"
    by (simp add: truncate_real_def)
  have n: "f \<le> 0 \<Longrightarrow> truncate_real (f * 32768) \<le> 0"
    by (auto simp: truncate_real_def ceiling_le_iff) 
  from e truncate_real_bounds [OF assms] p n show ?thesis by simp
qed


theorem floatToInt16_truncates_witness:
  "(- 1 :: real) \<le> - 1 \<and> (- 1 :: real) < 1
   \<and> sint (floatToInt16 (- 1)) = - 32768
   \<and> sint (floatToInt16 (- 1)) = truncate_real (- 1 * 32768)
   \<and> sint (floatToInt16 (- 1)) \<le> 0
   \<and> (- 1 :: real) \<le> 3 / 131072 \<and> (3 / 131072 :: real) < 1
   \<and> sint (floatToInt16 (3 / 131072)) = 0
   \<and> 0 \<le> sint (floatToInt16 (3 / 131072))"
proof -
  have h1: "(- 1 :: real) \<le> - 1" and h2: "(- 1 :: real) < 1"
    by simp_all
  have v: "truncate_real (- 1 * 32768) = - 32768"
    by (simp add: truncate_real_def)
  have k1: "(- 1 :: real) \<le> 3 / 131072" and k2: "(3 / 131072 :: real) < 1"
    by simp_all
  have w: "truncate_real (3 / 131072 * 32768) = 0"
    by (simp add: truncate_real_def)
  from floatToInt16_truncates [OF h1 h2] floatToInt16_truncates [OF k1 k2] v w show ?thesis
    by simp
qed

section \<open>The emotion classifier\<close>

lemma regexTest_mono:
  assumes "regexTest [k] s" and "k \<in> set ws"
  shows "regexTest ws s"
  using assms by (auto simp: regexTest_def matchesAt_def list_ex_iff)

lemma regexTest_sublist:
  assumes "regexTest ws s"
  shows "\<exists>k \<in> set ws. sublist k s"
proof -
  from assms obtain i k where k: "k \<in> set ws" and t: "take (length k) (drop i s) = k"
    by (auto simp: regexTest_def matchesAt_def list_ex_iff)
  have "s = take i s @ take (length k) (drop i s) @ drop (length k) (drop i s)"
    by (simp only: append_take_drop_id)
  with t have "s = take i s @ k @ drop (length k) (drop i s)"
    by (simp only:)
  then have "sublist k s"
    unfolding sublist_def by blast
  with k show ?thesis by blast
qed

lemma detectEmotion_firstMatch: "detectEmotion text = firstMatch (toLowerCase text)"
  by (simp add: detectEmotion_def firstMatch_def precedence_def Let_def)

text \<open>
  C6 as stated fails: a text in which both \<open>happy\<close> and \<open>relax\<close> occur as words is
  classified as surprise when a surprise keyword occurs in it too; and a text that
  contains both only inside longer words is classified as neutral.
\<close>

theorem detectEmotion_happy_relax_surprise:
  "regexTest [''happy''] (toLowerCase ''Wow, so happy, just relax'')
   \<and> regexTest [''relax''] (toLowerCase ''Wow, so happy, just relax'')
   \<and> detectEmotion ''Wow, so happy, just relax'' = Surprise
   \<and> sublist ''happy'' (toLowerCase ''Unhappy, relaxing'')
   \<and> sublist ''relax'' (toLowerCase ''Unhappy, relaxing'')
   \<and> detectEmotion ''Unhappy, relaxing'' = Default"
  by code_simp

text \<open>
  C6, amended. \<open>detectEmotion\<close> lower-cases the text and returns the first category, in
  the order surprise, frustration, boredom, joy, empathy, calm, curiosity, one of whose
  keywords matches between word boundaries, and the neutral \<open>Default\<close> if none does. In
  particular a text in which \<open>happy\<close> occurs as a word and no surprise, frustration or
  boredom keyword does is classified as joy, whether or not \<open>relax\<close> occurs; a text in
  which no keyword matches, and so a text that contains no keyword at all, is classified
  as \<open>Default\<close>.
\<close>

theorem detectEmotion_precedence:
  "detectEmotion text = firstMatch (toLowerCase text)
   \<and> (regexTest [''happy''] (toLowerCase text)
        \<and> \<not> regexTest surpriseWords (toLowerCase text)
        \<and> \<not> regexTest frustrationWords (toLowerCase text)
        \<and> \<not> regexTest boredomWords (toLowerCase text)
      \<longrightarrow> detectEmotion text = Joy)
   \<and> ((\<forall>(e, ws) \<in> set precedence. \<not> regexTest ws (toLowerCase text)) \<longrightarrow> detectEmotion text = Default)
   \<and> ((\<forall>(e, ws) \<in> set precedence. \<forall>k \<in> set ws. \<not> sublist k (toLowerCase text)) \<longrightarrow> detectEmotion text = Default)"
proof -
  have j: "regexTest [''happy''] (toLowerCase text) \<Longrightarrow> regexTest joyWords (toLowerCase text)"
    using regexTest_mono [of "''happy''" "toLowerCase text" joyWords] by (simp add: joyWords_def)
  have n: "(\<forall>(e, ws) \<in> set precedence. \<not> regexTest ws (toLowerCase text)) \<Longrightarrow> detectEmotion text = Default"
    by (simp add: detectEmotion_def precedence_def)
  have "(\<forall>(e, ws) \<in> set precedence. \<forall>k \<in> set ws. \<not> sublist k (toLowerCase text))
        \<Longrightarrow> (\<forall>(e, ws) \<in> set precedence. \<not> regexTest ws (toLowerCase text))"
    using regexTest_sublist by fastforce
  with n j show ?thesis
    by (auto simp: detectEmotion_firstMatch [symmetric]) (simp add: detectEmotion_def)
qed


theorem detectEmotion_precedence_witness:
  "regexTest [''happy''] (toLowerCase ''I am Happy; relax.'')
   \<and> regexTest [''relax''] (toLowerCase ''I am Happy; relax.'')
   \<and> \<not> regexTest surpriseWords (toLowerCase ''I am Happy; relax.'')
   \<and> \<not> regexTest frustrationWords (toLowerCase ''I am Happy; relax.'')
   \<and> \<not> regexTest boredomWords (toLowerCase ''I am Happy; relax.'')
   \<and> detectEmotion ''I am Happy; relax.'' = Joy
   \<and> detectEmotion ''Mhm, I see.'' = Default"
proof -
  have h: "regexTest [''happy''] (toLowerCase ''I am Happy; relax.'')
     \<and> regexTest [''relax''] (toLowerCase ''I am Happy; relax.'')
     \<and> \<not> regexTest surpriseWords (toLowerCase ''I am Happy; relax.'')
     \<and> \<not> regexTest frustrationWords (toLowerCase ''I am Happy; relax.'')
     \<and> \<not> regexTest boredomWords (toLowerCase ''I am Happy; relax.'')"
    by code_simp
  have n: "\<forall>(e, ws) \<in> set precedence. \<not> regexTest ws (toLowerCase ''Mhm, I see.'')"
    by code_simp
  have c: "\<forall>(e, ws) \<in> set precedence. \<forall>k \<in> set ws. \<not> sublist k (toLowerCase ''Mhm, I see.'')"
    by code_simp
  from detectEmotion_precedence [of "''I am Happy; relax.''"] h
  have j: "detectEmotion ''I am Happy; relax.'' = Joy"
    by blast
  from detectEmotion_precedence [of "''Mhm, I see.''"] n c
  have d: "detectEmotion ''Mhm, I see.'' = Default"
    by blast
  from h n j d show ?thesis
    by blast
qed

section \<open>The PCM codec\<close>

lemma sampleBytes_roundtrip: "ucast (ucast w :: 8 word) OR push_bit 8 (ucast (ucast (drop_bit 8 w) :: 8 word)) = (w :: 16 word)"
  by (rule bit_word_eqI) (auto simp: bit_simps)

lemma unpack_pack: "unpackSamples (packSamples frame) = frame"
  by (induction frame) (simp_all add: packSamples_def sampleBytes_def sampleBytes_roundtrip)

lemma charSextet_sextetChar: "n < 64 \<Longrightarrow> charSextet (sextetChar n) = Some n"
  by (auto simp: charSextet_def sextetChar_def Let_def)

lemma sextetChar_not_pad: "n < 64 \<Longrightarrow> sextetChar n \<noteq> CHR ''=''"
proof
  assume n: "n < 64" and e: "sextetChar n = CHR ''=''"
  have "charSextet (CHR ''='') = None"
    by (simp add: charSextet_def)
  with charSextet_sextetChar [OF n] e show False
    by simp
qed


lemma sextet_bounds:
  fixes a b c :: nat
  assumes "a < 256" and "b < 256" and "c < 256"
  shows "a div 4 < 64" and "(a mod 4) * 16 + b div 16 < 64" and "(b mod 16) * 4 + c div 64 < 64"
    and "c mod 64 < 64" and "(a mod 4) * 16 < 64" and "(b mod 16) * 4 < 64"
proof -
  have a4: "a mod 4 < 4" and b16: "b mod 16 < 16" by simp_all
  have bd: "b div 16 < 16" and cd: "c div 64 < 4" using assms by (simp_all add: less_mult_imp_div_less)
  show "a div 4 < 64" using assms by (simp add: less_mult_imp_div_less)
  show "(a mod 4) * 16 + b div 16 < 64" using a4 bd by linarith
  show "(b mod 16) * 4 + c div 64 < 64" using b16 cd by linarith
  show "c mod 64 < 64" by simp
  show "(a mod 4) * 16 < 64" using a4 by linarith
  show "(b mod 16) * 4 < 64" using b16 by linarith
qed

lemma sextet_join:
  fixes a b c :: nat
  assumes "b < 256" and "c < 256"
  shows "(a div 4) * 4 + ((a mod 4) * 16 + b div 16) div 16 = a"
    and "(((a mod 4) * 16 + b div 16) mod 16) * 16 + ((b mod 16) * 4 + c div 64) div 4 = b"
    and "(((b mod 16) * 4 + c div 64) mod 4) * 64 + c mod 64 = c"
    and "(a div 4) * 4 + ((a mod 4) * 16) div 16 = a"
    and "(((a mod 4) * 16 + b div 16) mod 16) * 16 + ((b mod 16) * 4) div 4 = b"
proof -
  have bd: "b div 16 < 16" and cd: "c div 64 < 4" using assms by (simp_all add: less_mult_imp_div_less)
  show "(a div 4) * 4 + ((a mod 4) * 16 + b div 16) div 16 = a"
    using bd by simp
  show "(((a mod 4) * 16 + b div 16) mod 16) * 16 + ((b mod 16) * 4 + c div 64) div 4 = b"
    using bd cd by simp
  show "(((b mod 16) * 4 + c div 64) mod 4) * 64 + c mod 64 = c"
    using cd by simp
  show "(a div 4) * 4 + ((a mod 4) * 16) div 16 = a"
    by simp
  show "(((a mod 4) * 16 + b div 16) mod 16) * 16 + ((b mod 16) * 4) div 4 = b"
    using bd by simp
qed

lemma decode_quad:
  assumes "s1 < 64" and "s2 < 64" and "s3 < 64" and "s4 < 64"
  shows "base64Decode (sextetChar s1 # sextetChar s2 # sextetChar s3 # sextetChar s4 # rest) =
           (case base64Decode rest of
              Some bytes \<Rightarrow> Some ([s1 * 4 + s2 div 16, (s2 mod 16) * 16 + s3 div 4, (s3 mod 4) * 64 + s4] @ bytes)
            | None \<Rightarrow> None)"
  using assms by (simp add: charSextet_sextetChar sextetChar_not_pad)

lemma decode_pad1:
  assumes "s1 < 64" and "s2 < 64" and "s3 < 64"
  shows "base64Decode [sextetChar s1, sextetChar s2, sextetChar s3, CHR ''=''] =
           Some [s1 * 4 + s2 div 16, (s2 mod 16) * 16 + s3 div 4]"
  using assms by (simp add: charSextet_sextetChar sextetChar_not_pad)

lemma decode_pad2:
  assumes "s1 < 64" and "s2 < 64"
  shows "base64Decode [sextetChar s1, sextetChar s2, CHR ''='', CHR ''=''] = Some [s1 * 4 + s2 div 16]"
  using assms by (simp add: charSextet_sextetChar)

lemma base64_roundtrip:
  assumes "\<forall>b \<in> set bytes. b < 256"
  shows "base64Decode (base64Encode bytes) = Some bytes"
  using assms
proof (induction bytes rule: base64Encode.induct)
  case (1 a b c rest)
  then have a: "a < 256" and b: "b < 256" and c: "c < 256" and r: "\<forall>b \<in> set rest. b < 256"
    by simp_all
  note sb = sextet_bounds [OF a b c]
  have ih: "base64Decode (base64Encode rest) = Some rest"
    using "1.IH" r by simp
  show ?case
    by (simp only: base64Encode.simps append_Cons append_Nil decode_quad [OF sb(1) sb(2) sb(3) sb(4)]
        ih option.case sextet_join [OF b c])
next
  case (2 a b)
  then have a: "a < 256" and b: "b < 256"
    by simp_all
  note sb = sextet_bounds [OF a b b]
  show ?case
    by (simp only: base64Encode.simps decode_pad1 [OF sb(1) sb(2) sb(6)] sextet_join [OF b b])
next
  case (3 a)
  then have a: "a < 256"
    by simp
  note sb = sextet_bounds [OF a a a]
  show ?case
    by (simp only: base64Encode.simps decode_pad2 [OF sb(1) sb(5)] sextet_join [OF a a])
next
  case 4
  show ?case by simp
qed

text \<open>
  C2. For every sequence \<open>x\<close> of int16 samples, decoding the data of \<open>encode x\<close> gives
  back \<open>x\<close>: the little-endian packing and the base64 framing are both undone exactly.
\<close>

theorem decode_encode: "decode (data (encode x)) = Some x"
proof -
  have "\<forall>b \<in> set (map unat (packSamples x)). b < 256"
  proof -
    have "unat w < 256" for w :: "8 word"
      using unsigned_less [of w] by simp
    then show ?thesis by simp
  qed
  then have "base64Decode (base64Encode (map unat (packSamples x))) = Some (map unat (packSamples x))"
    by (rule base64_roundtrip)
  moreover have "map of_nat (map unat (packSamples x)) = packSamples x"
    by (simp add: comp_def)
  ultimately show ?thesis
    by (simp add: decode_def encode_def unpack_pack)
qed


lemma encode_example: "data (encode [1, - 2, 258]) = ''AQD+/wIB''"
  by code_simp

end
